theory Spec2Isabelle
  imports Complex_Main
begin

section \<open>The sigma-point core of spkf (sigma\_base.h)\<close>

text \<open>
  A shallow embedding of the class template \<^verbatim>\<open>SigmaBase<Derived>\<close>.

  \<^item> \<^verbatim>\<open>scalar_t\<close>, the floating-point type of the template, is a type parameter \<open>'a\<close> with a zero.
    The four scalar operations the header performs, \<^verbatim>\<open>+\<close>, \<^verbatim>\<open>-\<close>, \<^verbatim>\<open>*\<close> and \<^verbatim>\<open>sqrt\<close>, are a
    parameter \<open>ar\<close> of every function that computes: nothing is assumed of them, so a theorem
    stated for every \<open>ar\<close> holds whatever the operations round to and whatever they return
    for a NaN or for the square root of a negative number. Each operator application is one
    call of the operation, as in a build that does not contract \<^verbatim>\<open>a * b + c\<close> into a fused
    multiply-add.
  \<^item> The unsigned template constants \<open>nx\<close>, \<open>nz\<close>, \<open>L\<close>, \<open>r\<close> are natural numbers, passed to
    every operation.
  \<^item> A fixed-size Eigen matrix is the function from (row, column) to its coefficient;
    coefficients outside the matrix's dimensions are never written by any operation.
  \<^item> The members declared as \<^verbatim>\<open>Ref<...>\<close> are aliases of blocks of the owning matrices: a
    read goes through \<open>block\<close>, a write through \<open>block_assign\<close> on the owner.
  \<^item> A C++ exception is a value \<open>Inl e\<close> of the outcome; a normal return is \<open>Inr\<close>.
\<close>

subsection \<open>Scalars, vectors, matrices\<close>

type_synonym 'a vec = "nat \<Rightarrow> 'a"
type_synonym 'a mat = "nat \<Rightarrow> nat \<Rightarrow> 'a"

record 'a scalar_ops =
  s_add :: "'a \<Rightarrow> 'a \<Rightarrow> 'a"
  s_sub :: "'a \<Rightarrow> 'a \<Rightarrow> 'a"
  s_mul :: "'a \<Rightarrow> 'a \<Rightarrow> 'a"
  s_sqrt :: "'a \<Rightarrow> 'a"

text \<open>The augmented dimension and the number of sigma points (lines 49-50).\<close>

definition L :: "nat \<Rightarrow> nat \<Rightarrow> nat" where
  "L nx nz = nx + nx + nz"

definition r :: "nat \<Rightarrow> nat \<Rightarrow> nat" where
  "r nx nz = 2 * L nx nz + 1"

text \<open>Coefficient-wise vector arithmetic: \<^verbatim>\<open>u + v\<close>, \<^verbatim>\<open>u - v\<close> and \<^verbatim>\<open>c * v\<close>.\<close>

definition vadd :: "'a scalar_ops \<Rightarrow> 'a vec \<Rightarrow> 'a vec \<Rightarrow> 'a vec" where
  "vadd ar u v = (\<lambda>a. s_add ar (u a) (v a))"

definition vsub :: "'a scalar_ops \<Rightarrow> 'a vec \<Rightarrow> 'a vec \<Rightarrow> 'a vec" where
  "vsub ar u v = (\<lambda>a. s_sub ar (u a) (v a))"

definition smult :: "'a scalar_ops \<Rightarrow> 'a \<Rightarrow> 'a vec \<Rightarrow> 'a vec" where
  "smult ar c v = (\<lambda>a. s_mul ar c (v a))"

text \<open>
  \<^verbatim>\<open>m.block(i, j, p, q)\<close> read as a value: the \<open>p\<close> by \<open>q\<close> window of \<open>m\<close> whose top-left
  corner is \<open>(i, j)\<close>, and \<^verbatim>\<open>m.col(j)\<close>.
\<close>

definition block :: "nat \<Rightarrow> nat \<Rightarrow> nat \<Rightarrow> nat \<Rightarrow> 'a::zero mat \<Rightarrow> 'a mat" where
  "block i j p q m = (\<lambda>a b. if a < p \<and> b < q then m (i + a) (j + b) else 0)"

definition col :: "nat \<Rightarrow> 'a mat \<Rightarrow> 'a vec" where
  "col j m = (\<lambda>a. m a j)"

text \<open>
  Assignment through a view: \<^verbatim>\<open>m.block(i, j, p, q) = src\<close>, the vector form
  \<^verbatim>\<open>v.block<p,1>(i, 0) = src\<close>, and \<^verbatim>\<open>m.block(i, 0, p, _).col(j) = src\<close>. Everything outside
  the window keeps its value.
\<close>

definition block_assign :: "nat \<Rightarrow> nat \<Rightarrow> nat \<Rightarrow> nat \<Rightarrow> 'a mat \<Rightarrow> 'a mat \<Rightarrow> 'a mat" where
  "block_assign i j p q src m =
     (\<lambda>a b. if i \<le> a \<and> a < i + p \<and> j \<le> b \<and> b < j + q then src (a - i) (b - j) else m a b)"

definition segment_assign :: "nat \<Rightarrow> nat \<Rightarrow> 'a vec \<Rightarrow> 'a vec \<Rightarrow> 'a vec" where
  "segment_assign i p src v = (\<lambda>a. if i \<le> a \<and> a < i + p then src (a - i) else v a)"

definition col_assign :: "nat \<Rightarrow> nat \<Rightarrow> nat \<Rightarrow> 'a vec \<Rightarrow> 'a mat \<Rightarrow> 'a mat" where
  "col_assign i p j src m =
     (\<lambda>a b. if b = j \<and> i \<le> a \<and> a < i + p then src (a - i) else m a b)"

subsection \<open>The Cholesky factorization of Eigen\<close>

text \<open>
  \<^verbatim>\<open>Eigen::LLT\<close> belongs to the linear-algebra library, not to this repository: the
  factorization is a parameter \<open>llt\<close> of the model, from the dimension and the input matrix
  to the decomposition object. Of that object the code uses \<^verbatim>\<open>matrixL()\<close> only;
  \<^verbatim>\<open>info()\<close>, where Eigen reports a matrix that is not positive definite, is never read.
  The input is the view \<^verbatim>\<open>triangularView<Lower>()\<close>; assigning \<^verbatim>\<open>matrixL()\<close> to a dense block
  copies the lower triangle and sets the strictly upper triangle to zero.
\<close>

datatype ComputationInfo = Success | NumericalIssue | NoConvergence | InvalidInput

record 'a LLT =
  info :: ComputationInfo
  m_matrix :: "'a mat"

definition triangularView_Lower :: "'a::zero mat \<Rightarrow> 'a mat" where
  "triangularView_Lower m = (\<lambda>a b. if b \<le> a then m a b else 0)"

definition matrixL :: "'a::zero LLT \<Rightarrow> 'a mat" where
  "matrixL d = triangularView_Lower (m_matrix d)"

subsection \<open>Failures\<close>

text \<open>
  The header declares no error type, has no \<^verbatim>\<open>throw\<close> and no \<^verbatim>\<open>try\<close>. The three names
  are the taxonomy of the specification; the only failures the code can meet are the
  exceptions of the hooks it calls, which pass through unchanged.
\<close>

datatype failure = NonPositiveDefiniteCovariance | InvalidSpreadFactor | ModelEvaluationFailure

subsection \<open>The object\<close>

text \<open>
  \<open>kf_base\<close> holds what the header reads from its base class \<^verbatim>\<open>KFBase\<close> through
  \<^verbatim>\<open>this->state()\<close>, \<^verbatim>\<open>this->covar()\<close>, \<^verbatim>\<open>this->proc_noise()\<close> and \<^verbatim>\<open>this->obs_noise()\<close>;
  \<open>sigma_base\<close> adds the data members of lines 206-219. The \<^verbatim>\<open>Ref\<close> members are the views
  defined below.
\<close>

record 'a kf_base =
  state :: "'a vec"
  covar :: "'a mat"
  proc_noise :: "'a vec"
  obs_noise :: "'a vec"

record 'a sigma_base = "'a kf_base" +
  aug_vector :: "'a vec"
  aug_matrix :: "'a mat"
  aug_sigmas :: "'a mat"
  obs_sigmas :: "'a mat"
  cross_covar :: "'a mat"

definition state_sigmas :: "nat \<Rightarrow> nat \<Rightarrow> 'a::zero sigma_base \<Rightarrow> 'a mat" where
  "state_sigmas nx nz this = block 0 0 nx (r nx nz) (aug_sigmas this)"

definition proc_noise_sigmas :: "nat \<Rightarrow> nat \<Rightarrow> 'a::zero sigma_base \<Rightarrow> 'a mat" where
  "proc_noise_sigmas nx nz this = block nx 0 nx (r nx nz) (aug_sigmas this)"

definition obs_noise_sigmas :: "nat \<Rightarrow> nat \<Rightarrow> 'a::zero sigma_base \<Rightarrow> 'a mat" where
  "obs_noise_sigmas nx nz this = block (2 * nx) 0 nz (r nx nz) (aug_sigmas this)"

definition chol_covar :: "nat \<Rightarrow> 'a::zero sigma_base \<Rightarrow> 'a mat" where
  "chol_covar nx this = block 0 0 nx nx (aug_matrix this)"

definition chol_proc_covar :: "nat \<Rightarrow> 'a::zero sigma_base \<Rightarrow> 'a mat" where
  "chol_proc_covar nx this = block nx nx nx nx (aug_matrix this)"

definition chol_obs_covar :: "nat \<Rightarrow> nat \<Rightarrow> 'a::zero sigma_base \<Rightarrow> 'a mat" where
  "chol_obs_covar nx nz this = block (2 * nx) (2 * nx) nz nz (aug_matrix this)"

subsection \<open>The constructor (lines 69-83)\<close>

text \<open>
  \<open>Base\<close> is the constructor of \<^verbatim>\<open>KFBase\<close>, a parameter. \<open>this\<close> is the storage the object is
  built in: the members \<^verbatim>\<open>_aug_vector\<close>, \<^verbatim>\<open>_aug_matrix\<close>, \<^verbatim>\<open>_aug_sigmas\<close>, \<^verbatim>\<open>_obs_sigmas\<close> and
  \<^verbatim>\<open>_cross_covar\<close> are default-initialized fixed-size Eigen matrices, whose coefficients
  are whatever the storage held. The body writes the three diagonal blocks of
  \<^verbatim>\<open>_aug_matrix\<close> and nothing else.
\<close>

definition SigmaBase ::
  "('a vec \<Rightarrow> 'a mat \<Rightarrow> 'a mat \<Rightarrow> 'a mat \<Rightarrow> 'a kf_base) \<Rightarrow> (nat \<Rightarrow> 'a mat \<Rightarrow> 'a LLT) \<Rightarrow>
   nat \<Rightarrow> nat \<Rightarrow> 'a vec \<Rightarrow> 'a mat \<Rightarrow> 'a mat \<Rightarrow> 'a mat \<Rightarrow> 'a::zero sigma_base \<Rightarrow>
   failure + 'a sigma_base" where
  "SigmaBase Base llt nx nz state_0 covar_0 proc_covar_0 obs_covar_0 this =
     (let base = Base state_0 covar_0 proc_covar_0 obs_covar_0;
          this = this\<lparr>state := state base, covar := covar base,
                      proc_noise := proc_noise base, obs_noise := obs_noise base\<rparr>;
          covar_llt = llt nx (triangularView_Lower covar_0);
          proc_covar_llt = llt nx (triangularView_Lower proc_covar_0);
          obs_covar_llt = llt nz (triangularView_Lower obs_covar_0);
          this = this\<lparr>aug_matrix :=
                   block_assign 0 0 nx nx (matrixL covar_llt) (aug_matrix this)\<rparr>;
          this = this\<lparr>aug_matrix :=
                   block_assign nx nx nx nx (matrixL proc_covar_llt) (aug_matrix this)\<rparr>;
          this = this\<lparr>aug_matrix :=
                   block_assign (2 * nx) (2 * nx) nz nz (matrixL obs_covar_llt) (aug_matrix this)\<rparr>
      in Inr this)"

subsection \<open>Sigma-point generation (lines 177-204)\<close>

text \<open>One pass of the loop of lines 197-201, for the index \<open>i\<close>.\<close>

definition sigma_columns ::
  "'a scalar_ops \<Rightarrow> 'a \<Rightarrow> nat \<Rightarrow> nat \<Rightarrow> nat \<Rightarrow> 'a sigma_base \<Rightarrow> 'a sigma_base" where
  "sigma_columns ar sqrt_gamma nx nz i this =
     (let this = this\<lparr>aug_sigmas :=
                   col_assign 0 (L nx nz) i
                     (vadd ar (aug_vector this)
                        (smult ar sqrt_gamma (col (i - 1) (aug_matrix this))))
                     (aug_sigmas this)\<rparr>;
          this = this\<lparr>aug_sigmas :=
                   col_assign 0 (L nx nz) (i + L nx nz)
                     (vsub ar (aug_vector this)
                        (smult ar sqrt_gamma (col (i - 1) (aug_matrix this))))
                     (aug_sigmas this)\<rparr>
      in this)"

text \<open>
  \<open>gamma\<close> is the value of the hook \<^verbatim>\<open>const_derived().gamma()\<close>. No statement of the function
  throws and its only \<^verbatim>\<open>return\<close> is \<^verbatim>\<open>return true\<close>.
\<close>

definition generate_sigmas ::
  "'a scalar_ops \<Rightarrow> (nat \<Rightarrow> 'a mat \<Rightarrow> 'a LLT) \<Rightarrow> 'a \<Rightarrow> nat \<Rightarrow> nat \<Rightarrow> 'a vec \<Rightarrow> 'a mat \<Rightarrow>
   'a::zero sigma_base \<Rightarrow> failure + bool \<times> 'a sigma_base" where
  "generate_sigmas ar llt gamma nx nz state_k covar_k this =
     (let covar_llt = llt nx (triangularView_Lower covar_k);
          this = this\<lparr>aug_matrix :=
                   block_assign 0 0 nx nx (matrixL covar_llt) (aug_matrix this)\<rparr>;
          proc_noise_k = proc_noise this;
          obs_noise_k = obs_noise this;
          this = this\<lparr>aug_vector := segment_assign 0 nx state_k (aug_vector this)\<rparr>;
          this = this\<lparr>aug_vector := segment_assign nx nx proc_noise_k (aug_vector this)\<rparr>;
          this = this\<lparr>aug_vector := segment_assign (2 * nx) nz obs_noise_k (aug_vector this)\<rparr>;
          this = this\<lparr>aug_sigmas :=
                   col_assign 0 (L nx nz) 0 (aug_vector this) (aug_sigmas this)\<rparr>;
          sqrt_gamma = s_sqrt ar gamma;
          this = fold (sigma_columns ar sqrt_gamma nx nz) [1..<Suc (L nx nz)] this
      in Inr (True, this))"

subsection \<open>Loops over hooks that may throw\<close>

text \<open>
  A \<^verbatim>\<open>for\<close> loop whose body calls a hook: the body is run for each index in turn, and the first
  exception ends the loop and the function.
\<close>

fun for_each :: "(nat \<Rightarrow> 'b \<Rightarrow> failure + 'b) \<Rightarrow> nat list \<Rightarrow> 'b \<Rightarrow> failure + 'b" where
  "for_each body [] x = Inr x"
| "for_each body (i # js) x =
     (case body i x of Inl e \<Rightarrow> Inl e | Inr y \<Rightarrow> for_each body js y)"

subsection \<open>The process step (lines 98-122)\<close>

text \<open>
  \<open>f\<close> is the hook \<^verbatim>\<open>const_derived()._f\<close>: it receives the state sigma column (which it
  overwrites with the propagated state), the control, the process-noise sigma column and the
  time increment; its result here is the new content of the state column, or the exception
  it throws. \<open>wm0\<close>, \<open>wmi\<close> and \<open>gamma\<close> are the values of the hooks of these names.
  The hooks are called on \<^verbatim>\<open>const_derived()\<close>: they act on the object through their
  arguments only.
  \<open>state_k\<close> is the caller's vector, passed by reference: the function returns its new value.
\<close>

definition process_column ::
  "'a scalar_ops \<Rightarrow> ('a vec \<Rightarrow> 'a vec \<Rightarrow> 'a vec \<Rightarrow> 'a \<Rightarrow> failure + 'a vec) \<Rightarrow> 'a \<Rightarrow> nat \<Rightarrow> nat \<Rightarrow>
   'a vec \<Rightarrow> 'a \<Rightarrow> nat \<Rightarrow> 'a vec \<times> 'a::zero sigma_base \<Rightarrow> failure + 'a vec \<times> 'a sigma_base" where
  "process_column ar f wmi nx nz control_k del_k i = (\<lambda>(state_k, this).
     (let noise_i = col i (proc_noise_sigmas nx nz this) in
      case f (col i (state_sigmas nx nz this)) control_k noise_i del_k of
        Inl e \<Rightarrow> Inl e
      | Inr x \<Rightarrow>
          (let this = this\<lparr>aug_sigmas := col_assign 0 nx i x (aug_sigmas this)\<rparr>;
               state_k = vadd ar state_k (smult ar wmi (col i (state_sigmas nx nz this)))
           in Inr (state_k, this))))"

definition process ::
  "'a scalar_ops \<Rightarrow> ('a vec \<Rightarrow> 'a vec \<Rightarrow> 'a vec \<Rightarrow> 'a \<Rightarrow> failure + 'a vec) \<Rightarrow> 'a \<Rightarrow> 'a \<Rightarrow> 'a \<Rightarrow>
   (nat \<Rightarrow> 'a mat \<Rightarrow> 'a LLT) \<Rightarrow> nat \<Rightarrow> nat \<Rightarrow> 'a vec \<Rightarrow> 'a vec \<Rightarrow> 'a \<Rightarrow> 'a::zero sigma_base \<Rightarrow>
   failure + bool \<times> 'a vec \<times> 'a sigma_base" where
  "process ar f wm0 wmi gamma llt nx nz state_k control_k del_k this =
     (let covar_k = covar this in
      case generate_sigmas ar llt gamma nx nz state_k covar_k this of
        Inl e \<Rightarrow> Inl e
      | Inr (_, this) \<Rightarrow>
          (let noise_0 = col 0 (proc_noise_sigmas nx nz this) in
           case f (col 0 (state_sigmas nx nz this)) control_k noise_0 del_k of
             Inl e \<Rightarrow> Inl e
           | Inr x \<Rightarrow>
               (let this = this\<lparr>aug_sigmas := col_assign 0 nx 0 x (aug_sigmas this)\<rparr>;
                    state_k = smult ar wm0 (col 0 (state_sigmas nx nz this))
                in case for_each (process_column ar f wmi nx nz control_k del_k)
                          [1..<r nx nz] (state_k, this) of
                     Inl e \<Rightarrow> Inl e
                   | Inr (state_k, this) \<Rightarrow> Inr (True, state_k, this))))"

subsection \<open>The observation step (lines 131-154)\<close>

text \<open>
  \<open>h\<close> is the hook \<^verbatim>\<open>const_derived()._h\<close>: it receives the state sigma column, the observation
  sigma column (which it overwrites) and the observation-noise sigma column; its result here
  is the new content of the observation column, or the exception it throws.
  \<^verbatim>\<open>observation_k\<close> is an output of the function: line 141 assigns it before any read.
\<close>

definition observe_column ::
  "'a scalar_ops \<Rightarrow> ('a vec \<Rightarrow> 'a vec \<Rightarrow> 'a vec \<Rightarrow> failure + 'a vec) \<Rightarrow> 'a \<Rightarrow> nat \<Rightarrow> nat \<Rightarrow>
   nat \<Rightarrow> 'a vec \<times> 'a::zero sigma_base \<Rightarrow> failure + 'a vec \<times> 'a sigma_base" where
  "observe_column ar h wmi nx nz i = (\<lambda>(observation_k, this).
     (let noise_i = col i (obs_noise_sigmas nx nz this) in
      case h (col i (state_sigmas nx nz this)) (col i (block 0 0 nz (r nx nz) (obs_sigmas this)))
             noise_i of
        Inl e \<Rightarrow> Inl e
      | Inr z \<Rightarrow>
          (let this = this\<lparr>obs_sigmas := col_assign 0 nz i z (obs_sigmas this)\<rparr>;
               observation_k =
                 vadd ar observation_k
                   (smult ar wmi (col i (block 0 0 nz (r nx nz) (obs_sigmas this))))
           in Inr (observation_k, this))))"

definition observe ::
  "'a scalar_ops \<Rightarrow> ('a vec \<Rightarrow> 'a vec \<Rightarrow> 'a vec \<Rightarrow> failure + 'a vec) \<Rightarrow> 'a \<Rightarrow> 'a \<Rightarrow> 'a \<Rightarrow>
   (nat \<Rightarrow> 'a mat \<Rightarrow> 'a LLT) \<Rightarrow> nat \<Rightarrow> nat \<Rightarrow> 'a::zero sigma_base \<Rightarrow>
   failure + bool \<times> 'a vec \<times> 'a sigma_base" where
  "observe ar h wm0 wmi gamma llt nx nz this =
     (let state_k = state this;
          covar_k = covar this in
      case generate_sigmas ar llt gamma nx nz state_k covar_k this of
        Inl e \<Rightarrow> Inl e
      | Inr (_, this) \<Rightarrow>
          (let noise_0 = col 0 (obs_noise_sigmas nx nz this) in
           case h (col 0 (state_sigmas nx nz this))
                  (col 0 (block 0 0 nz (r nx nz) (obs_sigmas this))) noise_0 of
             Inl e \<Rightarrow> Inl e
           | Inr z \<Rightarrow>
               (let this = this\<lparr>obs_sigmas := col_assign 0 nz 0 z (obs_sigmas this)\<rparr>;
                    observation_k =
                      smult ar wm0 (col 0 (block 0 0 nz (r nx nz) (obs_sigmas this)))
                in case for_each (observe_column ar h wmi nx nz) [1..<r nx nz]
                          (observation_k, this) of
                     Inl e \<Rightarrow> Inl e
                   | Inr (observation_k, this) \<Rightarrow> Inr (True, observation_k, this))))"

subsection \<open>The four delegating steps (lines 124-129 and 156-175)\<close>

text \<open>
  Each calls one hook of the variant on \<^verbatim>\<open>derived()\<close>, which is not \<^verbatim>\<open>const\<close>: the hook
  receives its arguments and the object, and leaves a new value of its first argument and a
  new object, or throws.
\<close>

definition process_covar ::
  "('a mat \<Rightarrow> 'a mat \<Rightarrow> 'a sigma_base \<Rightarrow> failure + 'a mat \<times> 'a sigma_base) \<Rightarrow> nat \<Rightarrow> 'a mat \<Rightarrow>
   'a::zero sigma_base \<Rightarrow> failure + bool \<times> 'a mat \<times> 'a sigma_base" where
  "process_covar process_covar_sp nx covar_k this =
     (case process_covar_sp covar_k (chol_covar nx this) this of
        Inl e \<Rightarrow> Inl e
      | Inr (covar_k, this) \<Rightarrow> Inr (True, covar_k, this))"

definition innovation_covar ::
  "('a mat \<Rightarrow> 'a sigma_base \<Rightarrow> failure + 'a mat \<times> 'a sigma_base) \<Rightarrow> 'a mat \<Rightarrow>
   'a sigma_base \<Rightarrow> failure + bool \<times> 'a mat \<times> 'a sigma_base" where
  "innovation_covar innovation_covar_sp inov_covar_k this =
     (case innovation_covar_sp inov_covar_k this of
        Inl e \<Rightarrow> Inl e
      | Inr (inov_covar_k, this) \<Rightarrow> Inr (True, inov_covar_k, this))"

definition kalman_gain ::
  "('a mat \<Rightarrow> 'a mat \<Rightarrow> 'a sigma_base \<Rightarrow> failure + 'a mat \<times> 'a sigma_base) \<Rightarrow> 'a mat \<Rightarrow>
   'a sigma_base \<Rightarrow> failure + bool \<times> 'a mat \<times> 'a sigma_base" where
  "kalman_gain kalman_gain_sp kalman_gain_k this =
     (case kalman_gain_sp kalman_gain_k (cross_covar this) this of
        Inl e \<Rightarrow> Inl e
      | Inr (kalman_gain_k, this) \<Rightarrow> Inr (True, kalman_gain_k, this))"

definition update_covar ::
  "('a mat \<Rightarrow> 'a mat \<Rightarrow> 'a sigma_base \<Rightarrow> failure + 'a mat \<times> 'a sigma_base) \<Rightarrow> nat \<Rightarrow> 'a mat \<Rightarrow>
   'a::zero sigma_base \<Rightarrow> failure + bool \<times> 'a mat \<times> 'a sigma_base" where
  "update_covar update_covar_sp nx covar_k this =
     (case update_covar_sp covar_k (chol_covar nx this) this of
        Inl e \<Rightarrow> Inl e
      | Inr (covar_k, this) \<Rightarrow> Inr (True, covar_k, this))"

text \<open>What a step returned: \<open>None\<close> when an exception left it, else the boolean.\<close>

definition returned :: "failure + bool \<times> 'b \<Rightarrow> bool option" where
  "returned out = (case out of Inl e \<Rightarrow> None | Inr (b, x) \<Rightarrow> Some b)"

subsection \<open>The base class\<close>

text \<open>
  Modelled from the spec: the constructor of \<^verbatim>\<open>KFBase\<close> (kf\_base.h is not among the sources;
  the header only calls it, on line 72, and reads the four accessors). By sections 3 and 4.1
  of the specification the base keeps the state and the state covariance it is given, and both
  noise channels are zero-mean: \<^verbatim>\<open>proc_noise()\<close> and \<^verbatim>\<open>obs_noise()\<close> are zero vectors.
\<close>

definition KFBase :: "'a vec \<Rightarrow> 'a mat \<Rightarrow> 'a mat \<Rightarrow> 'a mat \<Rightarrow> 'a::zero kf_base" where
  "KFBase state_0 covar_0 proc_covar_0 obs_covar_0 =
     \<lparr>state = state_0, covar = covar_0, proc_noise = (\<lambda>a. 0), obs_noise = (\<lambda>a. 0)\<rparr>"

subsection \<open>The closed form of the sigma-point loop\<close>

text \<open>
  What the loop of lines 197-201 leaves in a matrix \<open>old\<close> of \<open>l\<close> rows after the passes
  \<open>1, ..., n\<close>: columns \<open>1..n\<close> hold \<open>v + g * m.col(b - 1)\<close>, columns \<open>l + 1..l + n\<close> hold
  \<open>v - g * m.col(b - l - 1)\<close>. It is used to state the loop's effect, and proved equal to the
  loop below.
\<close>

definition spread ::
  "'a scalar_ops \<Rightarrow> 'a \<Rightarrow> nat \<Rightarrow> nat \<Rightarrow> 'a vec \<Rightarrow> 'a mat \<Rightarrow> 'a mat \<Rightarrow> 'a mat" where
  "spread ar g l n v m old =
     (\<lambda>a b. if a < l \<and> 1 \<le> b \<and> b \<le> n then s_add ar (v a) (s_mul ar g (m a (b - 1)))
            else if a < l \<and> l < b \<and> b \<le> l + n then s_sub ar (v a) (s_mul ar g (m a (b - l - 1)))
            else old a b)"

subsection \<open>Arithmetics for \<^verbatim>\<open>scalar_t\<close>\<close>

text \<open>
  \<open>exact\<close> is arithmetic on the reals without rounding. \<open>binary64\<close> is the arithmetic of IEEE 754
  double precision on finite values in the normal range, where a double is a real number: every
  operation returns the exact result rounded to the nearest number with a 53-bit significand,
  ties to the even significand (\<open>round64\<close>); it has no overflow, no gradual underflow and no
  NaN, and its square root of a negative number is meaningless. \<open>ieee64\<close> adds what \<open>binary64\<close>
  lacks of the non-finite values: a \<open>double\<close> is a finite real or \<open>NotFinite\<close>, which stands for the
  two infinities and NaN together; a result of magnitude \<open>2^1024\<close> or more after rounding and the
  square root of a negative number are \<open>NotFinite\<close>, and so is every operation on \<open>NotFinite\<close>
  (of the four operations of the header none leads from an infinity or a NaN back to a finite
  value). Signed zeros and subnormal numbers are not modelled.
  \<open>rounds_within u ar\<close> says that sums, differences and products of \<open>ar\<close> have relative error at
  most \<open>u\<close>.
\<close>

definition exact :: "real scalar_ops" where
  "exact = \<lparr>s_add = (\<lambda>x y. x + y), s_sub = (\<lambda>x y. x - y), s_mul = (\<lambda>x y. x * y), s_sqrt = sqrt\<rparr>"

definition rne :: "real \<Rightarrow> int" where
  "rne x =
     (if x - of_int \<lfloor>x\<rfloor> < 1 / 2 then \<lfloor>x\<rfloor>
      else if 1 / 2 < x - of_int \<lfloor>x\<rfloor> then \<lfloor>x\<rfloor> + 1
      else if even \<lfloor>x\<rfloor> then \<lfloor>x\<rfloor> else \<lfloor>x\<rfloor> + 1)"

definition round64 :: "real \<Rightarrow> real" where
  "round64 x =
     (if x = 0 then 0
      else of_int (rne (x * 2 powr (52 - of_int \<lfloor>log 2 \<bar>x\<bar>\<rfloor>))) * 2 powr (of_int \<lfloor>log 2 \<bar>x\<bar>\<rfloor> - 52))"

definition binary64 :: "real scalar_ops" where
  "binary64 =
     \<lparr>s_add = (\<lambda>x y. round64 (x + y)), s_sub = (\<lambda>x y. round64 (x - y)),
      s_mul = (\<lambda>x y. round64 (x * y)), s_sqrt = (\<lambda>x. round64 (sqrt x))\<rparr>"

definition rounds_within :: "real \<Rightarrow> real scalar_ops \<Rightarrow> bool" where
  "rounds_within u ar \<longleftrightarrow>
     0 \<le> u \<and>
     (\<forall>x y. \<bar>s_add ar x y - (x + y)\<bar> \<le> u * \<bar>x + y\<bar>) \<and>
     (\<forall>x y. \<bar>s_sub ar x y - (x - y)\<bar> \<le> u * \<bar>x - y\<bar>) \<and>
     (\<forall>x y. \<bar>s_mul ar x y - x * y\<bar> \<le> u * \<bar>x * y\<bar>)"

datatype double = Finite real | NotFinite

instantiation double :: zero
begin

definition zero_double_def: "0 = Finite 0"

instance ..

end

definition finite64 :: "real \<Rightarrow> double" where
  "finite64 x = (if \<bar>x\<bar> < 2 ^ 1024 then Finite x else NotFinite)"

fun lift64 :: "(real \<Rightarrow> real \<Rightarrow> real) \<Rightarrow> double \<Rightarrow> double \<Rightarrow> double" where
  "lift64 f (Finite x) (Finite y) = finite64 (f x y)"
| "lift64 f _ _ = NotFinite"

fun sqrt64 :: "double \<Rightarrow> double" where
  "sqrt64 (Finite x) = (if x < 0 then NotFinite else Finite (s_sqrt binary64 x))"
| "sqrt64 NotFinite = NotFinite"

definition ieee64 :: "double scalar_ops" where
  "ieee64 =
     \<lparr>s_add = lift64 (s_add binary64), s_sub = lift64 (s_sub binary64),
      s_mul = lift64 (s_mul binary64), s_sqrt = sqrt64\<rparr>"

subsection \<open>A one-dimensional instance\<close>

text \<open>
  The instance \<open>nx = nz = 1\<close> (so \<open>L = 3\<close> and \<open>r = 7\<close>) on which the theorems below are run.
  \<open>llt_1x1\<close> is the factorization of a 1-by-1 matrix as Eigen computes it: the square root of
  the entry when it is positive; otherwise the matrix is left as it is and
  \<^verbatim>\<open>NumericalIssue\<close> is reported. \<open>ex_storage\<close> is an object whose matrix members hold the value
  1 in every coefficient, and whose noise means are zero. The state is \<open>2\<close>, the covariances
  are \<open>1\<close> (or \<open>-1\<close>, which is not positive definite), the control is empty (\<open>nu = 0\<close>).
  \<open>ex_state_odd\<close> is the state \<open>1 + 2^-52\<close>, the double next above 1.
\<close>

definition llt_1x1 :: "nat \<Rightarrow> real mat \<Rightarrow> real LLT" where
  "llt_1x1 n m =
     (if 0 < m 0 0
      then \<lparr>info = Success, m_matrix = (\<lambda>a b. if a = 0 \<and> b = 0 then sqrt (m 0 0) else m a b)\<rparr>
      else \<lparr>info = NumericalIssue, m_matrix = m\<rparr>)"

definition ex_state :: "real vec" where
  "ex_state = (\<lambda>a. 2)"


definition ex_covar :: "real mat" where
  "ex_covar = (\<lambda>a b. 1)"

definition ex_covar_neg :: "real mat" where
  "ex_covar_neg = (\<lambda>a b. - 1)"

definition ex_storage :: "real sigma_base" where
  "ex_storage =
     \<lparr>state = (\<lambda>a. 2), covar = (\<lambda>a b. 1), proc_noise = (\<lambda>a. 0), obs_noise = (\<lambda>a. 0),
      aug_vector = (\<lambda>a. 1), aug_matrix = (\<lambda>a b. 1), aug_sigmas = (\<lambda>a b. 1),
      obs_sigmas = (\<lambda>a b. 1), cross_covar = (\<lambda>a b. 1)\<rparr>"

definition ex_control :: "real vec" where
  "ex_control = (\<lambda>a. 0)"

text \<open>
  A base-class constructor for the instance: it keeps the state and the covariance it is given;
  its noise means are those of \<open>ex_storage\<close>.
\<close>

definition ex_Base :: "real vec \<Rightarrow> real mat \<Rightarrow> real mat \<Rightarrow> real mat \<Rightarrow> real kf_base" where
  "ex_Base state_0 covar_0 proc_covar_0 obs_covar_0 =
     \<lparr>state = state_0, covar = covar_0,
      proc_noise = proc_noise ex_storage, obs_noise = obs_noise ex_storage\<rparr>"




text \<open>The same instance over \<open>double\<close>: state 2, covariance 1, storage of ones, zero noise means.\<close>

definition llt64_1x1 :: "nat \<Rightarrow> double mat \<Rightarrow> double LLT" where
  "llt64_1x1 n m =
     (case m 0 0 of
        Finite x \<Rightarrow>
          if 0 < x
          then \<lparr>info = Success,
                m_matrix = (\<lambda>a b. if a = 0 \<and> b = 0 then sqrt64 (Finite x) else m a b)\<rparr>
          else \<lparr>info = NumericalIssue, m_matrix = m\<rparr>
      | NotFinite \<Rightarrow> \<lparr>info = NumericalIssue, m_matrix = m\<rparr>)"

definition ex_state64 :: "double vec" where
  "ex_state64 = (\<lambda>a. Finite 2)"

definition ex_covar64 :: "double mat" where
  "ex_covar64 = (\<lambda>a b. Finite 1)"

definition ex_storage64 :: "double sigma_base" where
  "ex_storage64 =
     \<lparr>state = (\<lambda>a. Finite 2), covar = (\<lambda>a b. Finite 1),
      proc_noise = (\<lambda>a. Finite 0), obs_noise = (\<lambda>a. Finite 0),
      aug_vector = (\<lambda>a. Finite 1), aug_matrix = (\<lambda>a b. Finite 1),
      aug_sigmas = (\<lambda>a b. Finite 1), obs_sigmas = (\<lambda>a b. Finite 1),
      cross_covar = (\<lambda>a b. Finite 1)\<rparr>"

section \<open>Properties\<close>

subsection \<open>Rounding to double precision\<close>




lemma rounds_within_exact: "rounds_within 0 exact"
  by (simp add: rounds_within_def exact_def)

text \<open>
  Evaluating \<open>round64\<close> at a given number: with the exponent \<open>e\<close> of \<open>x\<close> and the rounded
  significand \<open>k\<close>.
\<close>

lemma round64_eqI:
  assumes "2 powr of_int e \<le> \<bar>x\<bar>" and "\<bar>x\<bar> < 2 powr (of_int e + 1)"
    and "rne (x * 2 powr (52 - of_int e)) = k"
    and "y = of_int k * 2 powr (of_int e - 52)"
  shows "round64 x = y"
proof -
  have pos: "0 < \<bar>x\<bar>"
    using assms(1) by (smt (verit) powr_gt_zero)
  have "of_int e \<le> log 2 \<bar>x\<bar>"
    using assms(1) pos by (simp add: le_log_iff)
  moreover have "log 2 \<bar>x\<bar> < of_int e + 1"
    using assms(2) pos by (simp add: log_less_iff)
  ultimately have "\<lfloor>log 2 \<bar>x\<bar>\<rfloor> = e"
    by linarith
  then show ?thesis
    using pos assms(3,4) by (simp add: round64_def)
qed

subsection \<open>Sigma-point generation in closed form\<close>

lemma sigma_columns_eq:
  "sigma_columns ar g nx nz i this =
     this\<lparr>aug_sigmas := (\<lambda>a b.
        if a < L nx nz \<and> b = i + L nx nz
          then s_sub ar (aug_vector this a) (s_mul ar g (aug_matrix this a (i - 1)))
        else if a < L nx nz \<and> b = i
          then s_add ar (aug_vector this a) (s_mul ar g (aug_matrix this a (i - 1)))
        else aug_sigmas this a b)\<rparr>"
  by (simp add: sigma_columns_def Let_def col_assign_def vadd_def vsub_def smult_def col_def
      fun_eq_iff)

text \<open>
  The loop invariant: after the passes \<open>1..n\<close>, \<open>n \<le> L\<close>, only \<^verbatim>\<open>_aug_sigmas\<close> has changed, and it
  is the closed form. The bound \<open>n \<le> L\<close> keeps the columns \<open>i\<close> and \<open>i + L\<close> of different passes
  apart.
\<close>

lemma fold_sigma_columns:
  "n \<le> L nx nz \<Longrightarrow>
   fold (sigma_columns ar g nx nz) [1..<Suc n] this =
     this\<lparr>aug_sigmas :=
       spread ar g (L nx nz) n (aug_vector this) (aug_matrix this) (aug_sigmas this)\<rparr>"
proof (induction n)
  case 0
  have "spread ar g (L nx nz) 0 (aug_vector this) (aug_matrix this) (aug_sigmas this)
        = aug_sigmas this"
    by (auto simp: spread_def fun_eq_iff)
  then show ?case by simp
next
  case (Suc n)
  let ?S = "spread ar g (L nx nz) n (aug_vector this) (aug_matrix this) (aug_sigmas this)"
  have IH: "fold (sigma_columns ar g nx nz) [1..<Suc n] this = this\<lparr>aug_sigmas := ?S\<rparr>"
    using Suc by simp
  have upto: "[1..<Suc (Suc n)] = [1..<Suc n] @ [Suc n]"
    by simp
  have pass: "sigma_columns ar g nx nz (Suc n) (this\<lparr>aug_sigmas := ?S\<rparr>) =
      this\<lparr>aug_sigmas := (\<lambda>a b.
        if a < L nx nz \<and> b = Suc n + L nx nz
          then s_sub ar (aug_vector this a) (s_mul ar g (aug_matrix this a (Suc n - 1)))
        else if a < L nx nz \<and> b = Suc n
          then s_add ar (aug_vector this a) (s_mul ar g (aug_matrix this a (Suc n - 1)))
        else ?S a b)\<rparr>"
    by (simp add: sigma_columns_eq cong: if_cong)
  have closed: "(\<lambda>a b.
        if a < L nx nz \<and> b = Suc n + L nx nz
          then s_sub ar (aug_vector this a) (s_mul ar g (aug_matrix this a (Suc n - 1)))
        else if a < L nx nz \<and> b = Suc n
          then s_add ar (aug_vector this a) (s_mul ar g (aug_matrix this a (Suc n - 1)))
        else ?S a b)
      = spread ar g (L nx nz) (Suc n) (aug_vector this) (aug_matrix this) (aug_sigmas this)"
    using Suc.prems by (auto simp: spread_def fun_eq_iff)
  show ?case
    unfolding upto fold_append comp_def IH
    using pass closed by simp
qed

lemma generate_sigmas_eq:
  "generate_sigmas ar llt gamma nx nz state_k covar_k this =
     Inr (True, this
       \<lparr>aug_vector :=
          segment_assign (2 * nx) nz (obs_noise this)
            (segment_assign nx nx (proc_noise this)
              (segment_assign 0 nx state_k (aug_vector this))),
        aug_matrix :=
          block_assign 0 0 nx nx (matrixL (llt nx (triangularView_Lower covar_k)))
            (aug_matrix this),
        aug_sigmas :=
          spread ar (s_sqrt ar gamma) (L nx nz) (L nx nz)
            (segment_assign (2 * nx) nz (obs_noise this)
              (segment_assign nx nx (proc_noise this)
                (segment_assign 0 nx state_k (aug_vector this))))
            (block_assign 0 0 nx nx (matrixL (llt nx (triangularView_Lower covar_k)))
              (aug_matrix this))
            (col_assign 0 (L nx nz) 0
              (segment_assign (2 * nx) nz (obs_noise this)
                (segment_assign nx nx (proc_noise this)
                  (segment_assign 0 nx state_k (aug_vector this))))
              (aug_sigmas this))\<rparr>)"
  unfolding generate_sigmas_def Let_def fold_sigma_columns[OF le_refl]
  by simp

lemma generate_sigmas_returns:
  "\<exists>this'. generate_sigmas ar llt gamma nx nz state_k covar_k this = Inr (True, this')"
  by (simp add: generate_sigmas_eq)

lemma generate_sigmas_frame:
  assumes "generate_sigmas ar llt gamma nx nz state_k covar_k this = Inr (b, this')"
  shows "b" and "state this' = state this" and "covar this' = covar this"
    and "proc_noise this' = proc_noise this" and "obs_noise this' = obs_noise this"
    and "obs_sigmas this' = obs_sigmas this" and "cross_covar this' = cross_covar this"
  using assms by (auto simp: generate_sigmas_eq)

lemma generate_sigmas_aug_vector:
  assumes "generate_sigmas ar llt gamma nx nz state_k covar_k this = Inr (b, this')"
  shows "aug_vector this' a =
     (if a < nx then state_k a
      else if a < 2 * nx then proc_noise this (a - nx)
      else if a < L nx nz then obs_noise this (a - 2 * nx)
      else aug_vector this a)"
  using assms by (auto simp: generate_sigmas_eq segment_assign_def L_def)

lemma generate_sigmas_aug_matrix:
  assumes "generate_sigmas ar llt gamma nx nz state_k covar_k this = Inr (b, this')"
  shows "aug_matrix this' =
     block_assign 0 0 nx nx (matrixL (llt nx (triangularView_Lower covar_k))) (aug_matrix this)"
  using assms by (auto simp: generate_sigmas_eq)

lemma generate_sigmas_aug_sigmas:
  assumes "generate_sigmas ar llt gamma nx nz state_k covar_k this = Inr (b, this')"
  shows "aug_sigmas this' a c =
     (if a < L nx nz \<and> c = 0 then aug_vector this' a
      else if a < L nx nz \<and> 1 \<le> c \<and> c \<le> L nx nz
        then s_add ar (aug_vector this' a)
               (s_mul ar (s_sqrt ar gamma) (aug_matrix this' a (c - 1)))
      else if a < L nx nz \<and> L nx nz < c \<and> c \<le> 2 * L nx nz
        then s_sub ar (aug_vector this' a)
               (s_mul ar (s_sqrt ar gamma) (aug_matrix this' a (c - L nx nz - 1)))
      else aug_sigmas this a c)"
  using assms by (auto simp: generate_sigmas_eq spread_def col_assign_def)

subsection \<open>The symmetric columns\<close>

text \<open>
  Claim C5. For every \<open>i\<close> in \<open>1..L\<close>, sigma-point generation returns with column \<open>i\<close> of the
  augmented sigma-point matrix equal to the augmented vector plus \<open>sqrt gamma\<close> times column
  \<open>i - 1\<close> of the augmented matrix, and column \<open>i + L\<close> equal to the augmented vector minus the
  same scaled column (all three as the function leaves them; the rows are \<open>0..L-1\<close>), whatever
  the scalar type and its arithmetic.
\<close>

theorem generate_sigmas_columns:
  "\<exists>this'. generate_sigmas ar llt gamma nx nz state_k covar_k this = Inr (True, this') \<and>
     (\<forall>i\<in>{1..L nx nz}. \<forall>a<L nx nz.
        aug_sigmas this' a i =
          vadd ar (aug_vector this')
            (smult ar (s_sqrt ar gamma) (col (i - 1) (aug_matrix this'))) a \<and>
        aug_sigmas this' a (i + L nx nz) =
          vsub ar (aug_vector this')
            (smult ar (s_sqrt ar gamma) (col (i - 1) (aug_matrix this'))) a)"
proof -
  obtain this' where
    gen: "generate_sigmas ar llt gamma nx nz state_k covar_k this = Inr (True, this')"
    using generate_sigmas_returns by blast
  have "aug_sigmas this' a i =
          s_add ar (aug_vector this' a) (s_mul ar (s_sqrt ar gamma) (aug_matrix this' a (i - 1)))"
    if "i \<in> {1..L nx nz}" "a < L nx nz" for i a
    using that by (simp add: generate_sigmas_aug_sigmas[OF gen])
  moreover
  have "aug_sigmas this' a (i + L nx nz) =
          s_sub ar (aug_vector this' a) (s_mul ar (s_sqrt ar gamma) (aug_matrix this' a (i - 1)))"
    if "i \<in> {1..L nx nz}" "a < L nx nz" for i a
    using that by (simp add: generate_sigmas_aug_sigmas[OF gen])
  ultimately show ?thesis
    using gen by (auto simp: vadd_def vsub_def smult_def col_def)
qed

text \<open>The values of \<open>round64\<close> at the small integers that the instance needs.\<close>

lemma round64_small:
  "round64 0 = 0" "round64 1 = 1" "round64 2 = 2" "round64 3 = 3" "round64 4 = 4"
proof -
  show "round64 0 = 0"
    by (simp add: round64_def)
  show "round64 1 = 1"
    by (rule round64_eqI[of 0 _ "2 ^ 52"]) (simp_all add: rne_def powr_neg_numeral)
  show "round64 2 = 2"
    by (rule round64_eqI[of 1 _ "2 ^ 52"]) (simp_all add: rne_def powr_neg_numeral)
  show "round64 3 = 3"
    by (rule round64_eqI[of 1 _ "3 * 2 ^ 51"]) (simp_all add: rne_def powr_neg_numeral)
  show "round64 4 = 4"
    by (rule round64_eqI[of 2 _ "2 ^ 52"]) (simp_all add: rne_def powr_neg_numeral)
qed

lemma sqrt_squares: "sqrt 4 = 2" "sqrt 9 = 3"
  using real_sqrt_abs[of 2] real_sqrt_abs[of 3] by simp_all

text \<open>
  On the instance, in double precision with \<open>gamma = 4\<close>: the state row of column 1 is
  \<open>2 + 2 * 1 = 4\<close> and that of column \<open>1 + L = 4\<close> is \<open>2 - 2 * 1 = 0\<close>.
\<close>

theorem generate_sigmas_columns_witness:
  "\<exists>this'.
     generate_sigmas binary64 llt_1x1 4 1 1 ex_state ex_covar ex_storage = Inr (True, this') \<and>
     (1::nat) \<in> {1..L 1 1} \<and> (0::nat) < L 1 1 \<and>
     aug_sigmas this' 0 1 = 4 \<and> aug_sigmas this' 0 (1 + L 1 1) = 0"
proof -
  let ?g = "s_sqrt binary64 4"
  obtain this' where
    gen: "generate_sigmas binary64 llt_1x1 4 1 1 ex_state ex_covar ex_storage
            = Inr (True, this')" and
    cols: "\<forall>i\<in>{1..L 1 1}. \<forall>a<L 1 1.
        aug_sigmas this' a i =
          vadd binary64 (aug_vector this') (smult binary64 ?g (col (i - 1) (aug_matrix this'))) a \<and>
        aug_sigmas this' a (i + L 1 1) =
          vsub binary64 (aug_vector this') (smult binary64 ?g (col (i - 1) (aug_matrix this'))) a"
    using generate_sigmas_columns[of binary64 llt_1x1 4 1 1 ex_state ex_covar ex_storage]
    by blast
  have in_range: "(1::nat) \<in> {1..L 1 1}" "(0::nat) < L 1 1"
    by (simp_all add: L_def)
  have v: "aug_vector this' 0 = 2"
    by (simp add: generate_sigmas_aug_vector[OF gen] ex_state_def)
  have m: "aug_matrix this' 0 0 = 1"
    by (simp add: generate_sigmas_aug_matrix[OF gen] block_assign_def matrixL_def
        triangularView_Lower_def llt_1x1_def ex_covar_def)
  have g: "?g = 2"
    by (simp add: binary64_def sqrt_squares round64_small)
  have "aug_sigmas this' 0 1 =
          vadd binary64 (aug_vector this') (smult binary64 ?g (col (1 - 1) (aug_matrix this'))) 0 \<and>
        aug_sigmas this' 0 (1 + L 1 1) =
          vsub binary64 (aug_vector this') (smult binary64 ?g (col (1 - 1) (aug_matrix this'))) 0"
    using cols in_range by blast
  then have "aug_sigmas this' 0 1 = 4 \<and> aug_sigmas this' 0 (1 + L 1 1) = 0"
    unfolding g using v m
    by (simp add: vadd_def vsub_def smult_def col_def binary64_def round64_small)
  with gen in_range show ?thesis
    by blast
qed

subsection \<open>The process step with the identity as process function\<close>



















subsection \<open>Symmetry of the sigma points\<close>




subsection \<open>The spread factor is not checked\<close>

text \<open>
  On finite values \<open>ieee64\<close> is \<open>binary64\<close> followed by the overflow test; the square root of a
  negative number is not finite.
\<close>

lemma ieee64_finite:
  "s_add ieee64 (Finite x) (Finite y) = finite64 (s_add binary64 x y)"
  "s_sub ieee64 (Finite x) (Finite y) = finite64 (s_sub binary64 x y)"
  "s_mul ieee64 (Finite x) (Finite y) = finite64 (s_mul binary64 x y)"
  "s_sqrt ieee64 (Finite x) = (if x < 0 then NotFinite else Finite (s_sqrt binary64 x))"
  by (simp_all add: ieee64_def)

lemma ieee64_not_finite:
  "s_add ieee64 x NotFinite = NotFinite" "s_add ieee64 NotFinite x = NotFinite"
  "s_sub ieee64 x NotFinite = NotFinite" "s_sub ieee64 NotFinite x = NotFinite"
  "s_mul ieee64 x NotFinite = NotFinite" "s_mul ieee64 NotFinite x = NotFinite"
  "s_sqrt ieee64 NotFinite = NotFinite"
  by (cases x; simp add: ieee64_def)+

text \<open>
  Claim C6 as stated fails. With the spread factor \<open>-1\<close> sigma-point generation does not raise
  \<open>InvalidSpreadFactor\<close>: it takes the square root of \<open>-1\<close>, which is not a finite number (a NaN),
  returns \<open>true\<close>, and the NaN is in the sigma points (here in the state row of the columns 1
  and \<open>1 + L = 4\<close>).
\<close>

theorem negative_gamma_not_rejected:
  "(- 1::real) < 0 \<and> s_sqrt ieee64 (Finite (- 1)) = NotFinite \<and>
   generate_sigmas ieee64 llt64_1x1 (Finite (- 1)) 1 1 ex_state64 ex_covar64 ex_storage64
     \<noteq> Inl InvalidSpreadFactor \<and>
   returned (generate_sigmas ieee64 llt64_1x1 (Finite (- 1)) 1 1 ex_state64 ex_covar64
               ex_storage64) = Some True \<and>
   aug_sigmas (snd (projr (generate_sigmas ieee64 llt64_1x1 (Finite (- 1)) 1 1 ex_state64
                             ex_covar64 ex_storage64))) 0 1 = NotFinite \<and>
   aug_sigmas (snd (projr (generate_sigmas ieee64 llt64_1x1 (Finite (- 1)) 1 1 ex_state64
                             ex_covar64 ex_storage64))) 0 (1 + L 1 1) = NotFinite"
proof -
  obtain this' where
    gen: "generate_sigmas ieee64 llt64_1x1 (Finite (- 1)) 1 1 ex_state64 ex_covar64 ex_storage64 =
            Inr (True, this')"
    using generate_sigmas_returns by blast
  have root: "s_sqrt ieee64 (Finite (- 1)) = NotFinite"
    by (simp add: ieee64_finite)
  have plus: "aug_sigmas this' 0 1 = NotFinite"
    by (simp add: generate_sigmas_aug_sigmas[OF gen] L_def root ieee64_not_finite)
  have minus: "aug_sigmas this' 0 (1 + L 1 1) = NotFinite"
    by (simp add: generate_sigmas_aug_sigmas[OF gen] L_def root ieee64_not_finite)
  have ret: "returned (Inr (True, this') :: failure + bool \<times> double sigma_base) = Some True"
    by (simp add: returned_def)
  have neg: "(- 1::real) < 0"
    by simp
  have no: "(Inr (True, this') :: failure + bool \<times> double sigma_base) \<noteq> Inl InvalidSpreadFactor"
    by simp
  show ?thesis
    unfolding gen sum.sel snd_conv
    by (intro conjI neg root no ret plus minus)
qed

text \<open>
  Claim C6, amended. Sigma-point generation performs no check of the spread factor. For every
  \<open>gamma\<close>, negative or not, and whatever the square root of the scalar type returns for it, the
  function raises nothing and returns \<open>true\<close>, and for every \<open>i\<close> in \<open>1..L\<close> the columns \<open>i\<close> and
  \<open>i + L\<close> it leaves are the augmented vector plus and minus the product of that square root and
  column \<open>i - 1\<close> of the augmented matrix: the square root of line 196 is taken of \<open>gamma\<close> as it is,
  and its result is used as it is.
\<close>

theorem spread_factor_unchecked:
  "\<exists>this'.
     generate_sigmas ar llt gamma nx nz state_k covar_k this = Inr (True, this') \<and>
     returned (generate_sigmas ar llt gamma nx nz state_k covar_k this) = Some True \<and>
     (\<forall>e. generate_sigmas ar llt gamma nx nz state_k covar_k this \<noteq> Inl e) \<and>
     (\<forall>i\<in>{1..L nx nz}. \<forall>a<L nx nz.
        aug_sigmas this' a i =
          s_add ar (aug_vector this' a)
            (s_mul ar (s_sqrt ar gamma) (aug_matrix this' a (i - 1))) \<and>
        aug_sigmas this' a (i + L nx nz) =
          s_sub ar (aug_vector this' a)
            (s_mul ar (s_sqrt ar gamma) (aug_matrix this' a (i - 1))))"
proof -
  obtain this' where
    gen: "generate_sigmas ar llt gamma nx nz state_k covar_k this = Inr (True, this')"
    using generate_sigmas_returns by blast
  have "aug_sigmas this' a i =
          s_add ar (aug_vector this' a) (s_mul ar (s_sqrt ar gamma) (aug_matrix this' a (i - 1)))"
    if "i \<in> {1..L nx nz}" "a < L nx nz" for i a
    using that by (simp add: generate_sigmas_aug_sigmas[OF gen])
  moreover
  have "aug_sigmas this' a (i + L nx nz) =
          s_sub ar (aug_vector this' a) (s_mul ar (s_sqrt ar gamma) (aug_matrix this' a (i - 1)))"
    if "i \<in> {1..L nx nz}" "a < L nx nz" for i a
    using that by (simp add: generate_sigmas_aug_sigmas[OF gen])
  moreover
  have "returned (generate_sigmas ar llt gamma nx nz state_k covar_k this) = Some True"
    by (simp add: gen returned_def)
  moreover
  have "\<forall>e. generate_sigmas ar llt gamma nx nz state_k covar_k this \<noteq> Inl e"
    by (simp add: gen)
  ultimately show ?thesis
    using gen by blast
qed

text \<open>
  On the instance over \<open>double\<close> with \<open>gamma = 4\<close>: the square root is 2, the state row of column 1
  is \<open>2 + 2 * 1 = 4\<close> and that of column \<open>1 + L = 4\<close> is \<open>2 - 2 * 1 = 0\<close>.
\<close>

theorem spread_factor_unchecked_witness:
  "\<exists>this'.
     generate_sigmas ieee64 llt64_1x1 (Finite 4) 1 1 ex_state64 ex_covar64 ex_storage64 =
       Inr (True, this') \<and>
     returned (generate_sigmas ieee64 llt64_1x1 (Finite 4) 1 1 ex_state64 ex_covar64 ex_storage64)
       = Some True \<and>
     (1::nat) \<in> {1..L 1 1} \<and> (0::nat) < L 1 1 \<and>
     s_sqrt ieee64 (Finite 4) = Finite 2 \<and>
     aug_sigmas this' 0 1 = Finite 4 \<and> aug_sigmas this' 0 (1 + L 1 1) = Finite 0"
proof -
  let ?g = "s_sqrt ieee64 (Finite 4)"
  obtain this' where
    gen: "generate_sigmas ieee64 llt64_1x1 (Finite 4) 1 1 ex_state64 ex_covar64 ex_storage64 =
            Inr (True, this')" and
    ret: "returned (generate_sigmas ieee64 llt64_1x1 (Finite 4) 1 1 ex_state64 ex_covar64
                      ex_storage64) = Some True" and
    cols: "\<forall>i\<in>{1..L 1 1}. \<forall>a<L 1 1.
        aug_sigmas this' a i =
          s_add ieee64 (aug_vector this' a) (s_mul ieee64 ?g (aug_matrix this' a (i - 1))) \<and>
        aug_sigmas this' a (i + L 1 1) =
          s_sub ieee64 (aug_vector this' a) (s_mul ieee64 ?g (aug_matrix this' a (i - 1)))"
    using spread_factor_unchecked[of ieee64 llt64_1x1 "Finite 4" 1 1 ex_state64 ex_covar64
        ex_storage64]
    by blast
  have in_range: "(1::nat) \<in> {1..L 1 1}" "(0::nat) < L 1 1"
    by (simp_all add: L_def)
  have v: "aug_vector this' 0 = Finite 2"
    by (simp add: generate_sigmas_aug_vector[OF gen] ex_state64_def)
  have m: "aug_matrix this' 0 0 = Finite 1"
    by (simp add: generate_sigmas_aug_matrix[OF gen] block_assign_def matrixL_def
        triangularView_Lower_def llt64_1x1_def ex_covar64_def binary64_def round64_small)
  have g: "?g = Finite 2"
    by (simp add: ieee64_finite binary64_def sqrt_squares round64_small)
  have t: "s_mul ieee64 (Finite 2) (Finite 1) = Finite 2"
    by (simp add: ieee64_finite binary64_def round64_small finite64_def)
  have p: "s_add ieee64 (Finite 2) (Finite 2) = Finite 4"
    by (simp add: ieee64_finite binary64_def round64_small finite64_def)
  have q: "s_sub ieee64 (Finite 2) (Finite 2) = Finite 0"
    by (simp add: ieee64_finite binary64_def round64_small finite64_def)
  have "aug_sigmas this' 0 1 =
          s_add ieee64 (aug_vector this' 0) (s_mul ieee64 ?g (aug_matrix this' 0 (1 - 1))) \<and>
        aug_sigmas this' 0 (1 + L 1 1) =
          s_sub ieee64 (aug_vector this' 0) (s_mul ieee64 ?g (aug_matrix this' 0 (1 - 1)))"
    using cols in_range by blast
  then have "aug_sigmas this' 0 1 = Finite 4 \<and> aug_sigmas this' 0 (1 + L 1 1) = Finite 0"
    unfolding g v by (simp add: m t p q)
  with gen ret in_range g show ?thesis
    by blast
qed

subsection \<open>The constructor and the augmented matrix\<close>

text \<open>
  The constructor writes the three diagonal blocks and leaves every other coefficient of the
  augmented matrix as the storage held it; sigma-point generation rewrites the state block
  only.
\<close>

lemma SigmaBase_eq:
  "SigmaBase Base llt nx nz state_0 covar_0 proc_covar_0 obs_covar_0 this =
     Inr (this
       \<lparr>state := state (Base state_0 covar_0 proc_covar_0 obs_covar_0),
        covar := covar (Base state_0 covar_0 proc_covar_0 obs_covar_0),
        proc_noise := proc_noise (Base state_0 covar_0 proc_covar_0 obs_covar_0),
        obs_noise := obs_noise (Base state_0 covar_0 proc_covar_0 obs_covar_0),
        aug_matrix :=
          block_assign (2 * nx) (2 * nx) nz nz
            (matrixL (llt nz (triangularView_Lower obs_covar_0)))
            (block_assign nx nx nx nx (matrixL (llt nx (triangularView_Lower proc_covar_0)))
              (block_assign 0 0 nx nx (matrixL (llt nx (triangularView_Lower covar_0)))
                (aug_matrix this)))\<rparr>)"
  by (simp add: SigmaBase_def Let_def)

lemma SigmaBase_blocks:
  assumes "SigmaBase Base llt nx nz state_0 covar_0 proc_covar_0 obs_covar_0 this = Inr this'"
  shows "chol_covar nx this' = block 0 0 nx nx (matrixL (llt nx (triangularView_Lower covar_0)))"
    and "chol_proc_covar nx this' =
           block 0 0 nx nx (matrixL (llt nx (triangularView_Lower proc_covar_0)))"
    and "chol_obs_covar nx nz this' =
           block 0 0 nz nz (matrixL (llt nz (triangularView_Lower obs_covar_0)))"
  using assms
  by (auto simp: SigmaBase_eq chol_covar_def chol_proc_covar_def chol_obs_covar_def block_def
      block_assign_def fun_eq_iff)

lemma SigmaBase_off_diagonal:
  assumes "SigmaBase Base llt nx nz state_0 covar_0 proc_covar_0 obs_covar_0 this = Inr this'"
    and "\<not> (a < nx \<and> b < nx)"
    and "\<not> (nx \<le> a \<and> a < 2 * nx \<and> nx \<le> b \<and> b < 2 * nx)"
    and "\<not> (2 * nx \<le> a \<and> a < L nx nz \<and> 2 * nx \<le> b \<and> b < L nx nz)"
  shows "aug_matrix this' a b = aug_matrix this a b"
  using assms by (auto simp: SigmaBase_eq block_assign_def L_def)

lemma generate_sigmas_blocks:
  assumes "generate_sigmas ar llt gamma nx nz state_k covar_k this = Inr (b, this')"
  shows "chol_covar nx this' = block 0 0 nx nx (matrixL (llt nx (triangularView_Lower covar_k)))"
    and "chol_proc_covar nx this' = chol_proc_covar nx this"
    and "chol_obs_covar nx nz this' = chol_obs_covar nx nz this"
  using assms
  by (auto simp: generate_sigmas_eq chol_covar_def chol_proc_covar_def chol_obs_covar_def
      block_def block_assign_def fun_eq_iff)

lemma generate_sigmas_off_diagonal:
  assumes "generate_sigmas ar llt gamma nx nz state_k covar_k this = Inr (b, this')"
    and "\<not> (a < nx \<and> c < nx)"
  shows "aug_matrix this' a c = aug_matrix this a c"
  using assms by (auto simp: generate_sigmas_eq block_assign_def)

text \<open>
  Claim C1. The claim asks that every coefficient of the augmented matrix outside the three
  diagonal blocks be zero after construction and after every regeneration. On the instance,
  built in storage that holds 1 everywhere, the coefficient in row 0 and column 1 (state row,
  process-noise column) is still 1 after the constructor and after a regeneration: nothing in
  the header ever writes it. It then enters the sigma points: with \<open>gamma = 4\<close> the state row of
  sigma column 2, the first process-noise column, is \<open>2 + 2 * 1 = 4\<close> where the state is \<open>2\<close>.
\<close>

theorem aug_matrix_off_diagonal_stale:
  "\<exists>this0 this1.
     SigmaBase ex_Base llt_1x1 1 1 ex_state ex_covar ex_covar ex_covar ex_storage = Inr this0 \<and>
     aug_matrix this0 0 1 = 1 \<and>
     generate_sigmas binary64 llt_1x1 4 1 1 ex_state ex_covar this0 = Inr (True, this1) \<and>
     aug_matrix this1 0 1 = 1 \<and>
     aug_vector this1 0 = 2 \<and> aug_sigmas this1 0 2 = 4"
proof -
  obtain this0 where
    ctor: "SigmaBase ex_Base llt_1x1 1 1 ex_state ex_covar ex_covar ex_covar ex_storage = Inr this0"
    by (simp add: SigmaBase_eq)
  obtain this1 where
    gen: "generate_sigmas binary64 llt_1x1 4 1 1 ex_state ex_covar this0 = Inr (True, this1)"
    using generate_sigmas_returns by blast
  have stale: "aug_matrix this0 0 1 = 1"
    by (simp add: SigmaBase_off_diagonal[OF ctor] L_def ex_storage_def)
  have kept: "aug_matrix this1 0 1 = aug_matrix this0 0 1"
    by (simp add: generate_sigmas_off_diagonal[OF gen])
  have centre: "aug_vector this1 0 = 2"
    by (simp add: generate_sigmas_aug_vector[OF gen] ex_state_def)
  have "aug_sigmas this1 0 2 =
          s_add binary64 (aug_vector this1 0)
            (s_mul binary64 (s_sqrt binary64 4) (aug_matrix this1 0 1))"
    by (simp add: generate_sigmas_aug_sigmas[OF gen] L_def)
  then have "aug_sigmas this1 0 2 = 4"
    unfolding kept stale centre by (simp add: binary64_def sqrt_squares round64_small)
  with ctor gen stale kept centre show ?thesis
    by simp
qed

subsection \<open>Regeneration twice in a row\<close>

text \<open>
  Claim C9. Sigma-point generation called twice in a row with the same state, covariance,
  spread factor and noise means leaves after the second call the augmented sigma-point matrix
  it left after the first; indeed the whole object is the same. This holds whatever the scalar
  type and its arithmetic: the second call applies the same operations to the same operands.
\<close>

theorem generate_sigmas_idempotent:
  "\<exists>this1 this2.
     generate_sigmas ar llt gamma nx nz state_k covar_k this = Inr (True, this1) \<and>
     generate_sigmas ar llt gamma nx nz state_k covar_k this1 = Inr (True, this2) \<and>
     aug_sigmas this2 = aug_sigmas this1 \<and> this2 = this1"
proof -
  let ?v = "segment_assign (2 * nx) nz (obs_noise this)
              (segment_assign nx nx (proc_noise this)
                (segment_assign 0 nx state_k (aug_vector this)))"
  let ?m = "block_assign 0 0 nx nx (matrixL (llt nx (triangularView_Lower covar_k)))
              (aug_matrix this)"
  let ?s = "spread ar (s_sqrt ar gamma) (L nx nz) (L nx nz) ?v ?m
              (col_assign 0 (L nx nz) 0 ?v (aug_sigmas this))"
  let ?this1 = "this\<lparr>aug_vector := ?v, aug_matrix := ?m, aug_sigmas := ?s\<rparr>"
  have first: "generate_sigmas ar llt gamma nx nz state_k covar_k this = Inr (True, ?this1)"
    by (rule generate_sigmas_eq)
  have v: "segment_assign (2 * nx) nz (obs_noise this)
             (segment_assign nx nx (proc_noise this) (segment_assign 0 nx state_k ?v)) = ?v"
    by (auto simp: segment_assign_def fun_eq_iff)
  have m: "block_assign 0 0 nx nx (matrixL (llt nx (triangularView_Lower covar_k))) ?m = ?m"
    by (auto simp: block_assign_def fun_eq_iff)
  have s: "spread ar (s_sqrt ar gamma) (L nx nz) (L nx nz) ?v ?m (col_assign 0 (L nx nz) 0 ?v ?s) = ?s"
    by (auto simp: spread_def col_assign_def fun_eq_iff)
  have second: "generate_sigmas ar llt gamma nx nz state_k covar_k ?this1 = Inr (True, ?this1)"
    unfolding generate_sigmas_eq[of ar llt gamma nx nz state_k covar_k ?this1]
    by (simp add: v m s)
  from first second show ?thesis
    by simp
qed

subsection \<open>The status of the factorization is not read\<close>

text \<open>
  Claim C2 as stated fails. The 1-by-1 covariance \<open>-1\<close> is not positive definite and the
  factorization reports \<^verbatim>\<open>NumericalIssue\<close>; neither the constructor nor sigma-point generation
  raises \<open>NonPositiveDefiniteCovariance\<close>: generation returns \<open>true\<close> and the state block holds
  \<open>-1\<close>, the matrix the failed factorization left.
\<close>

theorem non_positive_definite_not_rejected:
  "ex_covar_neg 0 0 < 0 \<and>
   info (llt_1x1 1 (triangularView_Lower ex_covar_neg)) = NumericalIssue \<and>
   SigmaBase ex_Base llt_1x1 1 1 ex_state ex_covar_neg ex_covar ex_covar ex_storage
     \<noteq> Inl NonPositiveDefiniteCovariance \<and>
   generate_sigmas binary64 llt_1x1 4 1 1 ex_state ex_covar_neg ex_storage
     \<noteq> Inl NonPositiveDefiniteCovariance \<and>
   returned (generate_sigmas binary64 llt_1x1 4 1 1 ex_state ex_covar_neg ex_storage) = Some True \<and>
   chol_covar 1 (snd (projr (generate_sigmas binary64 llt_1x1 4 1 1 ex_state ex_covar_neg ex_storage)))
     0 0 = - 1"
proof -
  have "info (llt_1x1 1 (triangularView_Lower ex_covar_neg)) = NumericalIssue"
    by (simp add: llt_1x1_def triangularView_Lower_def ex_covar_neg_def)
  moreover
  have "chol_covar 1
          (snd (projr (generate_sigmas binary64 llt_1x1 4 1 1 ex_state ex_covar_neg ex_storage))) 0 0
        = - 1"
    by (simp add: generate_sigmas_eq chol_covar_def block_def block_assign_def matrixL_def
        llt_1x1_def triangularView_Lower_def ex_covar_neg_def)
  ultimately show ?thesis
    by (simp add: generate_sigmas_eq SigmaBase_eq returned_def ex_covar_neg_def)
qed

text \<open>
  Claim C2, amended. For every covariance matrix, positive definite or not, and every
  factorization, the constructor returns the object and sigma-point generation returns \<open>true\<close>;
  the state block of the augmented matrix then holds the lower triangle of the matrix the
  factorization left. The status \<^verbatim>\<open>info()\<close> of the factorization is never read: replacing it by
  any other status changes nothing.
\<close>

theorem factorization_status_ignored:
  "(\<exists>this'.
      SigmaBase Base llt nx nz state_0 covar_0 proc_covar_0 obs_covar_0 this = Inr this' \<and>
      chol_covar nx this' =
        block 0 0 nx nx (matrixL (llt nx (triangularView_Lower covar_0)))) \<and>
   (\<exists>this'.
      generate_sigmas ar llt gamma nx nz state_k covar_k this = Inr (True, this') \<and>
      chol_covar nx this' =
        block 0 0 nx nx (matrixL (llt nx (triangularView_Lower covar_k)))) \<and>
   SigmaBase Base (\<lambda>n m. (llt n m)\<lparr>info := status n m\<rparr>) nx nz
       state_0 covar_0 proc_covar_0 obs_covar_0 this =
     SigmaBase Base llt nx nz state_0 covar_0 proc_covar_0 obs_covar_0 this \<and>
   generate_sigmas ar (\<lambda>n m. (llt n m)\<lparr>info := status n m\<rparr>) gamma nx nz state_k covar_k this =
     generate_sigmas ar llt gamma nx nz state_k covar_k this"
proof -
  obtain this0 where
    ctor: "SigmaBase Base llt nx nz state_0 covar_0 proc_covar_0 obs_covar_0 this = Inr this0"
    by (simp add: SigmaBase_eq)
  obtain this1 where
    gen: "generate_sigmas ar llt gamma nx nz state_k covar_k this = Inr (True, this1)"
    using generate_sigmas_returns by blast
  have "SigmaBase Base (\<lambda>n m. (llt n m)\<lparr>info := status n m\<rparr>) nx nz
          state_0 covar_0 proc_covar_0 obs_covar_0 this =
        SigmaBase Base llt nx nz state_0 covar_0 proc_covar_0 obs_covar_0 this"
    by (simp add: SigmaBase_eq matrixL_def)
  moreover
  have "generate_sigmas ar (\<lambda>n m. (llt n m)\<lparr>info := status n m\<rparr>) gamma nx nz state_k covar_k this =
        generate_sigmas ar llt gamma nx nz state_k covar_k this"
    by (simp add: generate_sigmas_eq matrixL_def)
  ultimately show ?thesis
    using ctor gen SigmaBase_blocks(1)[OF ctor] generate_sigmas_blocks(1)[OF gen]
    by simp
qed

subsection \<open>The augmented vector\<close>

text \<open>
  Claim C7. Let the object be constructed over the base class as modelled (zero noise means).
  In every later state of the object in which the noise means are still those of the
  construction, sigma-point generation returns with the augmented vector holding the state it
  was given in rows \<open>0..nx-1\<close> and zero in rows \<open>nx..2nx-1\<close> and \<open>2nx..L-1\<close>; it leaves the noise
  means as they were, so the same holds at the next regeneration.
\<close>

theorem generate_sigmas_augmented_vector:
  "\<exists>this0.
     SigmaBase KFBase llt nx nz state_0 covar_0 proc_covar_0 obs_covar_0 storage = Inr this0 \<and>
     (\<forall>this.
        proc_noise this = proc_noise this0 \<and> obs_noise this = obs_noise this0 \<longrightarrow>
        (\<exists>this'.
           generate_sigmas ar llt gamma nx nz state_k covar_k this = Inr (True, this') \<and>
           (\<forall>a<L nx nz. aug_vector this' a = (if a < nx then state_k a else 0)) \<and>
           proc_noise this' = proc_noise this \<and> obs_noise this' = obs_noise this))"
proof -
  obtain this0 where
    ctor: "SigmaBase KFBase llt nx nz state_0 covar_0 proc_covar_0 obs_covar_0 storage = Inr this0"
    by (simp add: SigmaBase_eq)
  have zero: "proc_noise this0 = (\<lambda>a. 0)" "obs_noise this0 = (\<lambda>a. 0)"
    using ctor by (auto simp: SigmaBase_eq KFBase_def)
  have "\<exists>this'.
           generate_sigmas ar llt gamma nx nz state_k covar_k this = Inr (True, this') \<and>
           (\<forall>a<L nx nz. aug_vector this' a = (if a < nx then state_k a else 0)) \<and>
           proc_noise this' = proc_noise this \<and> obs_noise this' = obs_noise this"
    if same: "proc_noise this = proc_noise this0 \<and> obs_noise this = obs_noise this0" for this
  proof -
    obtain this' where
      gen: "generate_sigmas ar llt gamma nx nz state_k covar_k this = Inr (True, this')"
      using generate_sigmas_returns by blast
    have "aug_vector this' a = (if a < nx then state_k a else 0)" if "a < L nx nz" for a
      using that same zero by (simp add: generate_sigmas_aug_vector[OF gen])
    then show ?thesis
      using gen generate_sigmas_frame[OF gen] by blast
  qed
  then show ?thesis
    using ctor by blast
qed

text \<open>
  On the instance, at the first regeneration after the construction: the augmented vector is
  \<open>(2, 0, 0)\<close>.
\<close>

theorem generate_sigmas_augmented_vector_witness:
  "\<exists>this0 this'.
     SigmaBase KFBase llt_1x1 1 1 ex_state ex_covar ex_covar ex_covar ex_storage = Inr this0 \<and>
     generate_sigmas binary64 llt_1x1 4 1 1 ex_state ex_covar this0 = Inr (True, this') \<and>
     aug_vector this' 0 = 2 \<and> aug_vector this' 1 = 0 \<and> aug_vector this' 2 = 0"
proof -
  from generate_sigmas_augmented_vector[of llt_1x1 1 1 ex_state ex_covar ex_covar ex_covar
      ex_storage binary64 4 ex_state ex_covar]
  obtain this0 where
    ctor: "SigmaBase KFBase llt_1x1 1 1 ex_state ex_covar ex_covar ex_covar ex_storage =
             Inr this0" and
    later: "\<forall>this.
        proc_noise this = proc_noise this0 \<and> obs_noise this = obs_noise this0 \<longrightarrow>
        (\<exists>this'.
           generate_sigmas binary64 llt_1x1 4 1 1 ex_state ex_covar this = Inr (True, this') \<and>
           (\<forall>a<L 1 1. aug_vector this' a = (if a < 1 then ex_state a else 0)) \<and>
           proc_noise this' = proc_noise this \<and> obs_noise this' = obs_noise this)"
    by blast
  from later obtain this' where
    gen: "generate_sigmas binary64 llt_1x1 4 1 1 ex_state ex_covar this0 = Inr (True, this')" and
    rows: "\<forall>a<L 1 1. aug_vector this' a = (if a < 1 then ex_state a else 0)"
    by blast
  have "(0::nat) < L 1 1" "(1::nat) < L 1 1" "(2::nat) < L 1 1"
    by (simp_all add: L_def)
  with rows have "aug_vector this' 0 = 2 \<and> aug_vector this' 1 = 0 \<and> aug_vector this' 2 = 0"
    by (simp add: ex_state_def)
  with ctor gen show ?thesis
    by blast
qed

subsection \<open>What the process and observation steps leave unchanged\<close>

text \<open>
  The loops stop at the first exception; when they return, every pass has returned. A pass of
  the process loop writes \<^verbatim>\<open>_aug_sigmas\<close> only, a pass of the observation loop \<^verbatim>\<open>_obs_sigmas\<close>
  only.
\<close>

lemma for_each_returns:
  assumes "\<And>i x. \<exists>y. body i x = Inr y"
  shows "\<exists>y. for_each body js x = Inr y"
proof (induction js arbitrary: x)
  case Nil
  then show ?case by simp
next
  case (Cons i js)
  obtain y where "body i x = Inr y"
    using assms by blast
  then show ?case
    using Cons.IH[of y] by simp
qed

lemma for_each_preserves:
  assumes step: "\<And>i x y. body i x = Inr y \<Longrightarrow> P x \<Longrightarrow> P y"
    and run: "for_each body js x = Inr y"
    and start: "P x"
  shows "P y"
  using run start
proof (induction js arbitrary: x)
  case Nil
  then show ?case by simp
next
  case (Cons i js)
  then obtain z where body: "body i x = Inr z" and rest: "for_each body js z = Inr y"
    by (auto split: sum.splits)
  have "P z"
    using step[OF body] Cons.prems(2) .
  then show ?case
    using Cons.IH[OF rest] by simp
qed

lemma process_column_frame:
  assumes "process_column ar f wmi nx nz control_k del_k i (state_k, this) = Inr (state_k', this')"
  shows "this' = this\<lparr>aug_sigmas := aug_sigmas this'\<rparr>"
  using assms by (auto simp: process_column_def Let_def split: sum.splits)

lemma observe_column_frame:
  assumes "observe_column ar h wmi nx nz i (observation_k, this) = Inr (observation_k', this')"
  shows "this' = this\<lparr>obs_sigmas := obs_sigmas this'\<rparr>"
  using assms by (auto simp: observe_column_def Let_def split: sum.splits)

lemma process_frame:
  fixes ar :: "'a::zero scalar_ops"
  assumes run: "process ar f wm0 wmi gamma llt nx nz state_k control_k del_k this =
                  Inr (b, state_k', this')"
  shows "b"
    and "\<exists>this1. generate_sigmas ar llt gamma nx nz state_k (covar this) this = Inr (True, this1) \<and>
           this' = this1\<lparr>aug_sigmas := aug_sigmas this'\<rparr>"
proof -
  obtain this1 where
    gen: "generate_sigmas ar llt gamma nx nz state_k (covar this) this = Inr (True, this1)"
    using generate_sigmas_returns by blast
  let ?noise = "col 0 (proc_noise_sigmas nx nz this1)"
  obtain x where
    first: "f (col 0 (state_sigmas nx nz this1)) control_k ?noise del_k = Inr x"
    using run gen by (auto simp: process_def Let_def split: sum.splits)
  let ?this2 = "this1\<lparr>aug_sigmas := col_assign 0 nx 0 x (aug_sigmas this1)\<rparr>"
  let ?mean = "smult ar wm0 (col 0 (state_sigmas nx nz ?this2))"
  have loop: "for_each (process_column ar f wmi nx nz control_k del_k) [1..<r nx nz]
                (?mean, ?this2) = Inr (state_k', this')" and b: "b"
    using run gen first by (auto simp: process_def Let_def split: sum.splits)
  have "snd (state_k', this') = this1\<lparr>aug_sigmas := aug_sigmas (snd (state_k', this'))\<rparr>"
  proof (rule for_each_preserves[OF _ loop,
        where P = "\<lambda>p. snd p = this1\<lparr>aug_sigmas := aug_sigmas (snd p)\<rparr>"])
    fix i and p q :: "'a vec \<times> 'a sigma_base"
    assume body: "process_column ar f wmi nx nz control_k del_k i p = Inr q"
      and inv: "snd p = this1\<lparr>aug_sigmas := aug_sigmas (snd p)\<rparr>"
    have "snd q = (snd p)\<lparr>aug_sigmas := aug_sigmas (snd q)\<rparr>"
      using process_column_frame[of ar f wmi nx nz control_k del_k i "fst p" "snd p" "fst q" "snd q"]
        body by simp
    also have "\<dots> = this1\<lparr>aug_sigmas := aug_sigmas (snd q)\<rparr>"
      by (subst inv) simp
    finally show "snd q = this1\<lparr>aug_sigmas := aug_sigmas (snd q)\<rparr>" .
  next
    show "snd (?mean, ?this2) = this1\<lparr>aug_sigmas := aug_sigmas (snd (?mean, ?this2))\<rparr>"
      by simp
  qed
  then show "b"
    and "\<exists>this1. generate_sigmas ar llt gamma nx nz state_k (covar this) this = Inr (True, this1) \<and>
           this' = this1\<lparr>aug_sigmas := aug_sigmas this'\<rparr>"
    using b gen by auto
qed

lemma observe_frame:
  fixes ar :: "'a::zero scalar_ops"
  assumes run: "observe ar h wm0 wmi gamma llt nx nz this = Inr (b, observation_k', this')"
  shows "b"
    and "\<exists>this1. generate_sigmas ar llt gamma nx nz (state this) (covar this) this =
                    Inr (True, this1) \<and>
           this' = this1\<lparr>obs_sigmas := obs_sigmas this'\<rparr>"
proof -
  obtain this1 where
    gen: "generate_sigmas ar llt gamma nx nz (state this) (covar this) this = Inr (True, this1)"
    using generate_sigmas_returns by blast
  let ?noise = "col 0 (obs_noise_sigmas nx nz this1)"
  obtain z where
    first: "h (col 0 (state_sigmas nx nz this1))
              (col 0 (block 0 0 nz (r nx nz) (obs_sigmas this1))) ?noise = Inr z"
    using run gen by (auto simp: observe_def Let_def split: sum.splits)
  let ?this2 = "this1\<lparr>obs_sigmas := col_assign 0 nz 0 z (obs_sigmas this1)\<rparr>"
  let ?mean = "smult ar wm0 (col 0 (block 0 0 nz (r nx nz) (obs_sigmas ?this2)))"
  have loop: "for_each (observe_column ar h wmi nx nz) [1..<r nx nz] (?mean, ?this2) =
                Inr (observation_k', this')" and b: "b"
    using run gen first by (auto simp: observe_def Let_def split: sum.splits)
  have "snd (observation_k', this') =
          this1\<lparr>obs_sigmas := obs_sigmas (snd (observation_k', this'))\<rparr>"
  proof (rule for_each_preserves[OF _ loop,
        where P = "\<lambda>p. snd p = this1\<lparr>obs_sigmas := obs_sigmas (snd p)\<rparr>"])
    fix i and p q :: "'a vec \<times> 'a sigma_base"
    assume body: "observe_column ar h wmi nx nz i p = Inr q"
      and inv: "snd p = this1\<lparr>obs_sigmas := obs_sigmas (snd p)\<rparr>"
    have "snd q = (snd p)\<lparr>obs_sigmas := obs_sigmas (snd q)\<rparr>"
      using observe_column_frame[of ar h wmi nx nz i "fst p" "snd p" "fst q" "snd q"] body
      by simp
    also have "\<dots> = this1\<lparr>obs_sigmas := obs_sigmas (snd q)\<rparr>"
      by (subst inv) simp
    finally show "snd q = this1\<lparr>obs_sigmas := obs_sigmas (snd q)\<rparr>" .
  next
    show "snd (?mean, ?this2) = this1\<lparr>obs_sigmas := obs_sigmas (snd (?mean, ?this2))\<rparr>"
      by simp
  qed
  then show "b"
    and "\<exists>this1. generate_sigmas ar llt gamma nx nz (state this) (covar this) this =
                    Inr (True, this1) \<and>
           this' = this1\<lparr>obs_sigmas := obs_sigmas this'\<rparr>"
    using b gen by auto
qed

lemma process_blocks:
  assumes run: "process ar f wm0 wmi gamma llt nx nz state_k control_k del_k this =
                  Inr (b, state_k', this')"
  shows "chol_covar nx this' =
           block 0 0 nx nx (matrixL (llt nx (triangularView_Lower (covar this))))"
    and "chol_proc_covar nx this' = chol_proc_covar nx this"
    and "chol_obs_covar nx nz this' = chol_obs_covar nx nz this"
proof -
  obtain this1 where
    gen: "generate_sigmas ar llt gamma nx nz state_k (covar this) this = Inr (True, this1)" and
    rest: "this' = this1\<lparr>aug_sigmas := aug_sigmas this'\<rparr>"
    using process_frame(2)[OF run] by blast
  have same: "aug_matrix this' = aug_matrix this1"
    by (subst rest) simp
  show "chol_covar nx this' =
           block 0 0 nx nx (matrixL (llt nx (triangularView_Lower (covar this))))"
    using generate_sigmas_blocks(1)[OF gen] by (simp add: chol_covar_def same)
  show "chol_proc_covar nx this' = chol_proc_covar nx this"
    using generate_sigmas_blocks(2)[OF gen] by (simp add: chol_proc_covar_def same)
  show "chol_obs_covar nx nz this' = chol_obs_covar nx nz this"
    using generate_sigmas_blocks(3)[OF gen] by (simp add: chol_obs_covar_def same)
qed

lemma observe_blocks:
  assumes run: "observe ar h wm0 wmi gamma llt nx nz this = Inr (b, observation_k', this')"
  shows "chol_covar nx this' =
           block 0 0 nx nx (matrixL (llt nx (triangularView_Lower (covar this))))"
    and "chol_proc_covar nx this' = chol_proc_covar nx this"
    and "chol_obs_covar nx nz this' = chol_obs_covar nx nz this"
proof -
  obtain this1 where
    gen: "generate_sigmas ar llt gamma nx nz (state this) (covar this) this = Inr (True, this1)" and
    rest: "this' = this1\<lparr>obs_sigmas := obs_sigmas this'\<rparr>"
    using observe_frame(2)[OF run] by blast
  have same: "aug_matrix this' = aug_matrix this1"
    by (subst rest) simp
  show "chol_covar nx this' =
           block 0 0 nx nx (matrixL (llt nx (triangularView_Lower (covar this))))"
    using generate_sigmas_blocks(1)[OF gen] by (simp add: chol_covar_def same)
  show "chol_proc_covar nx this' = chol_proc_covar nx this"
    using generate_sigmas_blocks(2)[OF gen] by (simp add: chol_proc_covar_def same)
  show "chol_obs_covar nx nz this' = chol_obs_covar nx nz this"
    using generate_sigmas_blocks(3)[OF gen] by (simp add: chol_obs_covar_def same)
qed

lemma process_returns:
  fixes ar :: "'a::zero scalar_ops"
  shows "\<exists>state_k' this'.
     process ar (\<lambda>x u w dt. Inr (g x u w dt)) wm0 wmi gamma llt nx nz state_k control_k del_k this =
       Inr (True, state_k', this')"
proof -
  let ?f = "\<lambda>x u w dt. Inr (g x u w dt) :: failure + 'a vec"
  obtain this1 where
    gen: "generate_sigmas ar llt gamma nx nz state_k (covar this) this = Inr (True, this1)"
    using generate_sigmas_returns by blast
  have pass: "\<exists>y. process_column ar ?f wmi nx nz control_k del_k i p = Inr y" for i p
    by (cases p) (simp add: process_column_def Let_def)
  have "\<exists>y. for_each (process_column ar ?f wmi nx nz control_k del_k) js p = Inr y" for js p
    using for_each_returns[of "process_column ar ?f wmi nx nz control_k del_k"] pass by blast
  then show ?thesis
    unfolding process_def Let_def gen
    by (simp split: sum.splits prod.splits) (metis Inl_Inr_False)
qed

lemma observe_returns:
  fixes ar :: "'a::zero scalar_ops"
  shows "\<exists>observation_k' this'.
     observe ar (\<lambda>x z w. Inr (g x z w)) wm0 wmi gamma llt nx nz this =
       Inr (True, observation_k', this')"
proof -
  let ?h = "\<lambda>x z w. Inr (g x z w) :: failure + 'a vec"
  obtain this1 where
    gen: "generate_sigmas ar llt gamma nx nz (state this) (covar this) this = Inr (True, this1)"
    using generate_sigmas_returns by blast
  have pass: "\<exists>y. observe_column ar ?h wmi nx nz i p = Inr y" for i p
    by (cases p) (simp add: observe_column_def Let_def)
  have "\<exists>y. for_each (observe_column ar ?h wmi nx nz) js p = Inr y" for js p
    using for_each_returns[of "observe_column ar ?h wmi nx nz"] pass by blast
  then show ?thesis
    unfolding observe_def Let_def gen
    by (simp split: sum.splits prod.splits) (metis Inl_Inr_False)
qed

subsection \<open>The noise factors are fixed at construction\<close>

text \<open>
  Claim C8. The constructor returns with the process-noise and observation-noise blocks of the
  augmented matrix holding the factors of the two noise covariances it was given. Sigma-point
  regeneration, the process step and the observation step, whenever they return, leave these
  two blocks as they found them (no later operation is given the noise covariances), and
  leave in the state block the factor of the state covariance of that regeneration:
  \<open>covar_k\<close> for a direct call, \<^verbatim>\<open>this->covar()\<close> inside the process and observation steps.
\<close>

theorem noise_factors_fixed_at_construction:
  "(\<exists>this0.
      SigmaBase Base llt nx nz state_0 covar_0 proc_covar_0 obs_covar_0 storage = Inr this0 \<and>
      chol_proc_covar nx this0 =
        block 0 0 nx nx (matrixL (llt nx (triangularView_Lower proc_covar_0))) \<and>
      chol_obs_covar nx nz this0 =
        block 0 0 nz nz (matrixL (llt nz (triangularView_Lower obs_covar_0)))) \<and>
   (\<exists>this'.
      generate_sigmas ar llt gamma nx nz state_k covar_k this = Inr (True, this') \<and>
      chol_proc_covar nx this' = chol_proc_covar nx this \<and>
      chol_obs_covar nx nz this' = chol_obs_covar nx nz this \<and>
      chol_covar nx this' =
        block 0 0 nx nx (matrixL (llt nx (triangularView_Lower covar_k)))) \<and>
   (\<forall>b state_k' this'.
      process ar f wm0 wmi gamma llt nx nz state_k control_k del_k this = Inr (b, state_k', this') \<longrightarrow>
      chol_proc_covar nx this' = chol_proc_covar nx this \<and>
      chol_obs_covar nx nz this' = chol_obs_covar nx nz this \<and>
      chol_covar nx this' =
        block 0 0 nx nx (matrixL (llt nx (triangularView_Lower (covar this))))) \<and>
   (\<forall>b observation_k' this'.
      observe ar h wm0 wmi gamma llt nx nz this = Inr (b, observation_k', this') \<longrightarrow>
      chol_proc_covar nx this' = chol_proc_covar nx this \<and>
      chol_obs_covar nx nz this' = chol_obs_covar nx nz this \<and>
      chol_covar nx this' =
        block 0 0 nx nx (matrixL (llt nx (triangularView_Lower (covar this)))))"
proof -
  obtain this0 where
    ctor: "SigmaBase Base llt nx nz state_0 covar_0 proc_covar_0 obs_covar_0 storage = Inr this0"
    by (simp add: SigmaBase_eq)
  obtain this1 where
    gen: "generate_sigmas ar llt gamma nx nz state_k covar_k this = Inr (True, this1)"
    using generate_sigmas_returns by blast
  have construction: "\<exists>this0.
      SigmaBase Base llt nx nz state_0 covar_0 proc_covar_0 obs_covar_0 storage = Inr this0 \<and>
      chol_proc_covar nx this0 =
        block 0 0 nx nx (matrixL (llt nx (triangularView_Lower proc_covar_0))) \<and>
      chol_obs_covar nx nz this0 =
        block 0 0 nz nz (matrixL (llt nz (triangularView_Lower obs_covar_0)))"
    using ctor SigmaBase_blocks(2,3)[OF ctor] by blast
  have regeneration: "\<exists>this'.
      generate_sigmas ar llt gamma nx nz state_k covar_k this = Inr (True, this') \<and>
      chol_proc_covar nx this' = chol_proc_covar nx this \<and>
      chol_obs_covar nx nz this' = chol_obs_covar nx nz this \<and>
      chol_covar nx this' =
        block 0 0 nx nx (matrixL (llt nx (triangularView_Lower covar_k)))"
    using gen generate_sigmas_blocks[OF gen] by blast
  have processing: "\<forall>b state_k' this'.
      process ar f wm0 wmi gamma llt nx nz state_k control_k del_k this = Inr (b, state_k', this') \<longrightarrow>
      chol_proc_covar nx this' = chol_proc_covar nx this \<and>
      chol_obs_covar nx nz this' = chol_obs_covar nx nz this \<and>
      chol_covar nx this' =
        block 0 0 nx nx (matrixL (llt nx (triangularView_Lower (covar this))))"
  proof (intro allI impI)
    fix b state_k' this'
    assume run: "process ar f wm0 wmi gamma llt nx nz state_k control_k del_k this =
                   Inr (b, state_k', this')"
    show "chol_proc_covar nx this' = chol_proc_covar nx this \<and>
          chol_obs_covar nx nz this' = chol_obs_covar nx nz this \<and>
          chol_covar nx this' =
            block 0 0 nx nx (matrixL (llt nx (triangularView_Lower (covar this))))"
      by (intro conjI process_blocks[OF run])
  qed
  have observing: "\<forall>b observation_k' this'.
      observe ar h wm0 wmi gamma llt nx nz this = Inr (b, observation_k', this') \<longrightarrow>
      chol_proc_covar nx this' = chol_proc_covar nx this \<and>
      chol_obs_covar nx nz this' = chol_obs_covar nx nz this \<and>
      chol_covar nx this' =
        block 0 0 nx nx (matrixL (llt nx (triangularView_Lower (covar this))))"
  proof (intro allI impI)
    fix b observation_k' this'
    assume run: "observe ar h wm0 wmi gamma llt nx nz this = Inr (b, observation_k', this')"
    show "chol_proc_covar nx this' = chol_proc_covar nx this \<and>
          chol_obs_covar nx nz this' = chol_obs_covar nx nz this \<and>
          chol_covar nx this' =
            block 0 0 nx nx (matrixL (llt nx (triangularView_Lower (covar this))))"
      by (intro conjI observe_blocks[OF run])
  qed
  show ?thesis
    by (rule conjI[OF construction conjI[OF regeneration conjI[OF processing observing]]])
qed

text \<open>
  On the instance the process step (identity process function) and the observation step
  (observation = state + noise) return, with the two noise blocks as before and the state
  block holding \<open>sqrt 1 = 1\<close>.
\<close>

theorem noise_factors_fixed_at_construction_witness:
  "(\<exists>b state_k' this'.
      process binary64 (\<lambda>x u w dt. Inr x) (1 / 4) (1 / 8) 4 llt_1x1 1 1 ex_state ex_control 0 ex_storage =
        Inr (b, state_k', this') \<and>
      chol_proc_covar 1 this' = chol_proc_covar 1 ex_storage \<and>
      chol_obs_covar 1 1 this' = chol_obs_covar 1 1 ex_storage \<and>
      chol_covar 1 this' 0 0 = 1) \<and>
   (\<exists>b observation_k' this'.
      observe binary64 (\<lambda>x z w. Inr (vadd binary64 x w)) (1 / 4) (1 / 8) 4 llt_1x1 1 1 ex_storage =
        Inr (b, observation_k', this') \<and>
      chol_proc_covar 1 this' = chol_proc_covar 1 ex_storage \<and>
      chol_obs_covar 1 1 this' = chol_obs_covar 1 1 ex_storage \<and>
      chol_covar 1 this' 0 0 = 1)"
proof -
  note fixed = noise_factors_fixed_at_construction[of ex_Base llt_1x1 1 1 ex_state ex_covar ex_covar
      ex_covar ex_storage binary64 4 ex_state ex_covar ex_storage "\<lambda>x u w dt. Inr x" "1 / 4" "1 / 8"
      ex_control 0 "\<lambda>x z w. Inr (vadd binary64 x w)"]
  have factor: "block 0 0 1 1 (matrixL (llt_1x1 1 (triangularView_Lower (covar ex_storage)))) 0 0
                = 1"
    by (simp add: block_def matrixL_def llt_1x1_def triangularView_Lower_def ex_storage_def)
  obtain state_k' this' where
    run: "process binary64 (\<lambda>x u w dt. Inr x) (1 / 4) (1 / 8) 4 llt_1x1 1 1 ex_state ex_control 0
            ex_storage = Inr (True, state_k', this')"
    using process_returns[of binary64 "\<lambda>x u w dt. x"] by blast
  obtain observation_k' this'' where
    run': "observe binary64 (\<lambda>x z w. Inr (vadd binary64 x w)) (1 / 4) (1 / 8) 4 llt_1x1 1 1 ex_storage =
            Inr (True, observation_k', this'')"
    using observe_returns[of binary64 "\<lambda>x z w. vadd binary64 x w"] by blast
  have "chol_proc_covar 1 this' = chol_proc_covar 1 ex_storage \<and>
        chol_obs_covar 1 1 this' = chol_obs_covar 1 1 ex_storage \<and>
        chol_covar 1 this' =
          block 0 0 1 1 (matrixL (llt_1x1 1 (triangularView_Lower (covar ex_storage))))"
    using fixed[THEN conjunct2, THEN conjunct2, THEN conjunct1] run by blast
  moreover
  have "chol_proc_covar 1 this'' = chol_proc_covar 1 ex_storage \<and>
        chol_obs_covar 1 1 this'' = chol_obs_covar 1 1 ex_storage \<and>
        chol_covar 1 this'' =
          block 0 0 1 1 (matrixL (llt_1x1 1 (triangularView_Lower (covar ex_storage))))"
    using fixed[THEN conjunct2, THEN conjunct2, THEN conjunct2] run' by blast
  ultimately show ?thesis
    using run run' factor by auto
qed

subsection \<open>The boolean results\<close>

text \<open>
  Claim C10. None of the six step operations ever returns \<open>false\<close>, whatever the inputs, the
  factorization (so also for covariances that are not positive definite) and the hooks (so
  also for model functions that fail): an exception of a hook leaves the step without a
  return value, and in every other case the step returns \<open>true\<close>; in particular it returns
  \<open>true\<close> whenever the hooks it calls return.
\<close>

theorem steps_return_true:
  "returned (process ar f wm0 wmi gamma llt nx nz state_k control_k del_k this) \<noteq> Some False \<and>
   returned (process_covar process_covar_sp nx covar_k this) \<noteq> Some False \<and>
   returned (observe ar h wm0 wmi gamma llt nx nz this) \<noteq> Some False \<and>
   returned (innovation_covar innovation_covar_sp inov_covar_k this) \<noteq> Some False \<and>
   returned (kalman_gain kalman_gain_sp kalman_gain_k this) \<noteq> Some False \<and>
   returned (update_covar update_covar_sp nx covar_k this) \<noteq> Some False \<and>
   returned (process ar (\<lambda>x u w dt. Inr (f' x u w dt)) wm0 wmi gamma llt nx nz
               state_k control_k del_k this) = Some True \<and>
   returned (process_covar (\<lambda>c l t. Inr (process_covar_sp' c l t)) nx covar_k this) = Some True \<and>
   returned (observe ar (\<lambda>x z w. Inr (h' x z w)) wm0 wmi gamma llt nx nz this) = Some True \<and>
   returned (innovation_covar (\<lambda>c t. Inr (innovation_covar_sp' c t)) inov_covar_k this)
     = Some True \<and>
   returned (kalman_gain (\<lambda>k c t. Inr (kalman_gain_sp' k c t)) kalman_gain_k this) = Some True \<and>
   returned (update_covar (\<lambda>c l t. Inr (update_covar_sp' c l t)) nx covar_k this) = Some True"
proof -
  have "returned (process ar f wm0 wmi gamma llt nx nz state_k control_k del_k this) \<noteq> Some False"
  proof (cases "process ar f wm0 wmi gamma llt nx nz state_k control_k del_k this")
    case (Inl e)
    then show ?thesis by (simp add: returned_def)
  next
    case (Inr res)
    obtain b state_k' this' where res: "res = (b, state_k', this')"
      by (cases res)
    have "b"
      using process_frame(1) Inr unfolding res by blast
    then show ?thesis
      by (simp add: returned_def Inr res)
  qed
  moreover
  have "returned (observe ar h wm0 wmi gamma llt nx nz this) \<noteq> Some False"
  proof (cases "observe ar h wm0 wmi gamma llt nx nz this")
    case (Inl e)
    then show ?thesis by (simp add: returned_def)
  next
    case (Inr res)
    obtain b observation_k' this' where res: "res = (b, observation_k', this')"
      by (cases res)
    have "b"
      using observe_frame(1) Inr unfolding res by blast
    then show ?thesis
      by (simp add: returned_def Inr res)
  qed
  moreover
  have "returned (process_covar process_covar_sp nx covar_k this) \<noteq> Some False"
    by (simp add: returned_def process_covar_def split: sum.splits prod.splits)
  moreover
  have "returned (innovation_covar innovation_covar_sp inov_covar_k this) \<noteq> Some False"
    by (simp add: returned_def innovation_covar_def split: sum.splits prod.splits)
  moreover
  have "returned (kalman_gain kalman_gain_sp kalman_gain_k this) \<noteq> Some False"
    by (simp add: returned_def kalman_gain_def split: sum.splits prod.splits)
  moreover
  have "returned (update_covar update_covar_sp nx covar_k this) \<noteq> Some False"
    by (simp add: returned_def update_covar_def split: sum.splits prod.splits)
  moreover
  have "returned (process ar (\<lambda>x u w dt. Inr (f' x u w dt)) wm0 wmi gamma llt nx nz
               state_k control_k del_k this) = Some True"
    using process_returns[of ar f' wm0 wmi gamma llt nx nz state_k control_k del_k this]
    by (auto simp: returned_def)
  moreover
  have "returned (observe ar (\<lambda>x z w. Inr (h' x z w)) wm0 wmi gamma llt nx nz this) = Some True"
    using observe_returns[of ar h' wm0 wmi gamma llt nx nz this]
    by (auto simp: returned_def)
  moreover
  have "returned (process_covar (\<lambda>c l t. Inr (process_covar_sp' c l t)) nx covar_k this)
        = Some True"
    by (simp add: returned_def process_covar_def split: prod.splits)
  moreover
  have "returned (innovation_covar (\<lambda>c t. Inr (innovation_covar_sp' c t)) inov_covar_k this)
        = Some True"
    by (simp add: returned_def innovation_covar_def split: prod.splits)
  moreover
  have "returned (kalman_gain (\<lambda>k c t. Inr (kalman_gain_sp' k c t)) kalman_gain_k this)
        = Some True"
    by (simp add: returned_def kalman_gain_def split: prod.splits)
  moreover
  have "returned (update_covar (\<lambda>c l t. Inr (update_covar_sp' c l t)) nx covar_k this)
        = Some True"
    by (simp add: returned_def update_covar_def split: prod.splits)
  ultimately show ?thesis
    by blast
qed

end
